theory Spec2Isabelle
  imports Main
begin

section \<open>JavaScript strings and numbers\<close>

text \<open>
  A JavaScript string is modelled as a \<open>string\<close>: one \<open>char\<close> per code unit, so
  \<open>length\<close> is the \<open>.length\<close> of the source, \<open>take n\<close> is \<open>substring(0, n)\<close> and
  \<open>drop n\<close> is \<open>slice(n)\<close>. Token counts and clock readings are natural numbers.
\<close>

definition newline :: char where
  "newline = CHR 0x0A"

text \<open>\<open>Math.ceil(n / 4)\<close> on a length \<open>n\<close>.\<close>

definition ceil4 :: "nat \<Rightarrow> nat" where
  "ceil4 n = (n + 3) div 4"

text \<open>
  \<open>String.prototype.trim\<close>, which the schema option \<open>trim: true\<close> applies to every
  title that is assigned: the white space of the code units below 256.
\<close>

definition is_white_space :: "char \<Rightarrow> bool" where
  "is_white_space c = (c \<in> {CHR 0x09, CHR 0x0A, CHR 0x0B, CHR 0x0C, CHR 0x0D, CHR 0x20, CHR 0xA0})"

definition js_trim :: "string \<Rightarrow> string" where
  "js_trim s = rev (dropWhile is_white_space (rev (dropWhile is_white_space s)))"

text \<open>\<open>a || b\<close> on strings: the empty string is falsy.\<close>

definition or_string :: "string option \<Rightarrow> string \<Rightarrow> string" where
  "or_string a b = (case a of None \<Rightarrow> b | Some s \<Rightarrow> if s = [] then b else s)"

text \<open>\<open>n || 0\<close> on an optional number.\<close>

definition or_zero :: "nat option \<Rightarrow> nat" where
  "or_zero a = (case a of None \<Rightarrow> 0 | Some n \<Rightarrow> if n = 0 then 0 else n)"

text \<open>
  \<open>a + b\<close> on numbers that are natural numbers: a JavaScript number is a double, so
  the sum is the double nearest to the exact sum, ties to the even significand
  (\<open>round53\<close>); it is the exact sum below \<open>2 ^ 53 = 9007199254740992\<close>. \<open>halvings n\<close>
  is the exponent that leaves \<open>n\<close> a significand of 53 bits. Sums beyond the largest
  double, which JavaScript turns into \<open>Infinity\<close>, are not numbers of this model.
\<close>

function halvings :: "int \<Rightarrow> nat" where
  "halvings n = (if n < 9007199254740992 then 0 else Suc (halvings (n div 2)))"
  by pat_completeness auto
termination
  by (relation "measure nat") auto

definition round53 :: "int \<Rightarrow> int" where
  "round53 n =
     (let e = halvings n; q = n div 2 ^ e; r = n mod 2 ^ e
      in if 2 * r < 2 ^ e then q * 2 ^ e
         else if 2 * r = 2 ^ e \<and> even q then q * 2 ^ e
         else (q + 1) * 2 ^ e)"

definition js_add :: "nat \<Rightarrow> nat \<Rightarrow> nat" where
  "js_add a b = nat (round53 (int a + int b))"

section \<open>models/Chat.js\<close>

datatype role = User | Assistant | System

record message =
  role :: role
  content :: string
  timestamp :: nat
  model :: "string option"
  tokens :: nat

text \<open>
  An \<open>ObjectId\<close> is a number here; a route parameter that does not cast to an
  \<open>ObjectId\<close> is not a value of this type. The chat's own \<open>model\<close> field is
  \<open>chat_model\<close>, since \<open>model\<close> is the message's.
\<close>

type_synonym object_id = nat

record chat =
  title :: string
  user :: object_id
  messages :: "message list"
  chat_model :: string
  isActive :: bool
  totalTokens :: nat
  lastActivity :: nat

definition generateTitle :: "chat \<Rightarrow> string" where
  "generateTitle c =
     (if length (messages c) > 0 then
        (case find (\<lambda>msg. role msg = User) (messages c) of
           Some firstUserMessage \<Rightarrow>
             take 50 (content firstUserMessage) @
               (if length (content firstUserMessage) > 50 then ''...'' else [])
         | None \<Rightarrow> ''New Chat'')
      else ''New Chat'')"

text \<open>\<open>messages.reduce((total, msg) => total + (msg.tokens || 0), 0)\<close>.\<close>

definition total_tokens :: "message list \<Rightarrow> nat" where
  "total_tokens ms = foldl (\<lambda>total msg. js_add total (or_zero (Some (tokens msg)))) 0 ms"

definition calculateTotalTokens :: "chat \<Rightarrow> chat" where
  "calculateTotalTokens c = c\<lparr>totalTokens := total_tokens (messages c)\<rparr>"

text \<open>\<open>chat.messages.push(m)\<close>.\<close>

definition push :: "chat \<Rightarrow> message \<Rightarrow> chat" where
  "push c m = c\<lparr>messages := messages c @ [m]\<rparr>"

subsection \<open>The schema's validators, run by \<open>save\<close>\<close>

text \<open>
  \<open>content\<close> is required (an empty string is refused), \<open>model\<close> is required when
  the role is \<open>assistant\<close>; a chat needs a title of at most 100 characters and a model.
  The role's \<open>enum\<close> is the type \<open>role\<close>.
\<close>

definition message_valid :: "message \<Rightarrow> bool" where
  "message_valid m =
     (content m \<noteq> [] \<and>
      (if role m = Assistant then (case model m of None \<Rightarrow> False | Some s \<Rightarrow> s \<noteq> []) else True))"

definition chat_valid :: "chat \<Rightarrow> bool" where
  "chat_valid c =
     (title c \<noteq> [] \<and> length (title c) \<le> 100 \<and> chat_model c \<noteq> [] \<and>
      list_all message_valid (messages c))"

datatype error = ValidationError

type_synonym store = "object_id \<Rightarrow> chat option"

text \<open>\<open>Chat.findOne({ _id, user, isActive: true })\<close>.\<close>

definition findOne :: "store \<Rightarrow> object_id \<Rightarrow> object_id \<Rightarrow> chat option" where
  "findOne st cid uid =
     (case st cid of
        None \<Rightarrow> None
      | Some c \<Rightarrow> if user c = uid \<and> isActive c then Some c else None)"

text \<open>
  \<open>chat.save()\<close> at time \<open>now\<close>: the validators run first and a failure throws; the
  \<open>pre('save')\<close> hook then sets \<open>lastActivity\<close> when the messages differ from the
  stored ones; the document is written under its id. The result is the new store and
  the document as the handler holds it afterwards. Handlers run one after the other
  here; the \<open>_id\<close> of a message and the \<open>createdAt\<close> and \<open>updatedAt\<close> of a chat
  are left out.
\<close>

definition save :: "store \<Rightarrow> object_id \<Rightarrow> chat \<Rightarrow> nat \<Rightarrow> error + (store \<times> chat)" where
  "save st cid c now =
     (if chat_valid c then
        (let c' = (if map_option messages (st cid) = Some (messages c) then c
                   else c\<lparr>lastActivity := now\<rparr>)
         in Inr (st(cid \<mapsto> c'), c'))
      else Inl ValidationError)"

section \<open>The world of a request handler\<close>

text \<open>
  The store, and the events sent through \<open>req.io.to(room).emit('new-message', ...)\<close>,
  oldest first.
\<close>

datatype socket_event = NewMessage object_id message

record world =
  store :: store
  emitted :: "(object_id \<times> socket_event) list"

definition emit :: "object_id \<Rightarrow> socket_event \<Rightarrow> world \<Rightarrow> world" where
  "emit room e w = w\<lparr>emitted := emitted w @ [(room, e)]\<rparr>"

datatype http_body =
    ErrorsBody "string list"
  | MessageBody string
  | ChatSuccess message "nat option"
  | ChatFailure string string
  | AddSuccess message object_id string nat
  | DeleteSuccess string

datatype http_response = Response nat http_body

section \<open>routes/chat.js\<close>

text \<open>
  A request as the handler reads it: \<open>validationResult(req)\<close> as the list \<open>errors\<close>,
  the sanitized body, the route parameter and the authenticated \<open>req.user.userId\<close>.
\<close>

record message_request =
  m_errors :: "string list"
  m_chatId :: object_id
  m_userId :: object_id
  m_content :: string
  m_role :: role
  m_model :: "string option"
  m_tokens :: "nat option"

text \<open>The object \<open>message\<close> that \<open>POST /:chatId/messages\<close> builds at time \<open>now\<close>.\<close>

definition new_message :: "nat \<Rightarrow> message_request \<Rightarrow> message" where
  "new_message now req =
     \<lparr>role = m_role req, content = m_content req, timestamp = now,
      model = (if m_role req = Assistant then m_model req else None),
      tokens = or_zero (m_tokens req)\<rparr>"

text \<open>
  The statement \<open>if (chat.title === 'New Chat' && role === 'user' &&
  chat.messages.length === 1) chat.title = chat.generateTitle()\<close>; the assignment
  goes through the schema's \<open>trim\<close>.
\<close>

definition auto_title :: "role \<Rightarrow> chat \<Rightarrow> chat" where
  "auto_title r c =
     (if title c = ''New Chat'' \<and> r = User \<and> length (messages c) = 1
      then c\<lparr>title := js_trim (generateTitle c)\<rparr>
      else c)"

text \<open>\<open>POST /:chatId/messages\<close>, with \<open>new Date()\<close> and \<open>Date.now()\<close> read as \<open>now\<close>.\<close>

definition post_messages :: "nat \<Rightarrow> world \<Rightarrow> message_request \<Rightarrow> world \<times> http_response" where
  "post_messages now w req =
     (if m_errors req \<noteq> [] then (w, Response 400 (ErrorsBody (m_errors req)))
      else
        (case findOne (store w) (m_chatId req) (m_userId req) of
           None \<Rightarrow> (w, Response 404 (MessageBody ''Chat not found''))
         | Some chat \<Rightarrow>
             (let message = new_message now req;
                  chat2 = auto_title (m_role req) (calculateTotalTokens (push chat message))
              in (case save (store w) (m_chatId req) chat2 now of
                    Inl e \<Rightarrow> (w, Response 500 (MessageBody ''Server error''))
                  | Inr (st, chat3) \<Rightarrow>
                      (emit (m_chatId req) (NewMessage (m_chatId req) message) (w\<lparr>store := st\<rparr>),
                       Response 201
                         (AddSuccess message (m_chatId req) (title chat3) (totalTokens chat3)))))))"

text \<open>
  \<open>DELETE /:chatId\<close>: \<open>findOneAndUpdate\<close> with the filter
  \<open>{ _id, user, isActive: true }\<close> and the update \<open>{ isActive: false }\<close>.
\<close>

definition delete_chat :: "world \<Rightarrow> object_id \<Rightarrow> object_id \<Rightarrow> world \<times> http_response" where
  "delete_chat w cid uid =
     (case findOne (store w) cid uid of
        None \<Rightarrow> (w, Response 404 (MessageBody ''Chat not found''))
      | Some chat \<Rightarrow>
          (w\<lparr>store := (store w)(cid \<mapsto> chat\<lparr>isActive := False\<rparr>)\<rparr>,
           Response 200 (DeleteSuccess ''Chat deleted successfully'')))"

section \<open>routes/ai.js: \<open>POST /chat\<close>\<close>

record chat_request =
  errors :: "string list"
  chatId :: object_id
  userId :: object_id
  body_message :: string
  body_model :: "string option"

text \<open>
  What \<open>axios.post\<close> and the reading of \<open>response.data\<close> give: the text of
  \<open>choices[0].message.content\<close> with \<open>usage?.total_tokens\<close>, or a throw (a status
  outside 2xx, or a body without \<open>choices[0].message\<close>) with
  \<open>apiError.response?.data?.error?.message\<close>.
\<close>

datatype completion = Completed string "nat option" | Failed "string option"

type_synonym provider = "string \<Rightarrow> (role \<times> string) list \<Rightarrow> completion"

text \<open>\<open>filter(msg => msg.role !== 'system').slice(-20).map(...)\<close>.\<close>

definition apiMessages :: "chat \<Rightarrow> (role \<times> string) list" where
  "apiMessages c =
     (let kept = filter (\<lambda>msg. role msg \<noteq> System) (messages c)
      in map (\<lambda>msg. (role msg, content msg)) (drop (length kept - 20) kept))"

definition userMessage :: "string \<Rightarrow> nat \<Rightarrow> message" where
  "userMessage text now =
     \<lparr>role = User, content = text, timestamp = now, model = None,
      tokens = ceil4 (length text)\<rparr>"

definition errorMessage :: "string \<Rightarrow> nat \<Rightarrow> message" where
  "errorMessage selectedModel now =
     \<lparr>role = Assistant,
      content = ''Sorry, I encountered an error while processing your request. Please try again.'',
      timestamp = now, model = Some selectedModel, tokens = 0\<rparr>"

text \<open>
  The \<open>assistantMessage\<close> of \<open>POST /chat\<close>, with
  \<open>tokensUsed = response.data.usage?.total_tokens || 0\<close>.
\<close>

definition chat_assistantMessage :: "string \<Rightarrow> nat option \<Rightarrow> string \<Rightarrow> nat \<Rightarrow> message" where
  "chat_assistantMessage aiResponse usage selectedModel now =
     \<lparr>role = Assistant, content = aiResponse, timestamp = now,
      model = Some selectedModel, tokens = or_zero usage\<rparr>"

text \<open>The \<open>catch (apiError)\<close> block; a throw of its \<open>save\<close> reaches the outer \<open>catch\<close>.\<close>

definition api_error :: "nat \<Rightarrow> world \<Rightarrow> object_id \<Rightarrow> chat \<Rightarrow> string \<Rightarrow> string option
    \<Rightarrow> world \<times> http_response" where
  "api_error now w cid chat selectedModel err =
     (case save (store w) cid (push chat (errorMessage selectedModel now)) now of
        Inl e \<Rightarrow> (w, Response 500 (MessageBody ''Server error''))
      | Inr (st, chat') \<Rightarrow>
          (emit cid (NewMessage cid (errorMessage selectedModel now)) (w\<lparr>store := st\<rparr>),
           Response 500
             (ChatFailure ''AI service temporarily unavailable'' (or_string err ''Unknown error''))))"

text \<open>
  \<open>POST /chat\<close>. \<open>t1\<close> is the clock at the user message and its \<open>save\<close>, \<open>t2\<close> the
  clock after the provider has answered.
\<close>

definition post_chat :: "provider \<Rightarrow> nat \<Rightarrow> nat \<Rightarrow> world \<Rightarrow> chat_request \<Rightarrow> world \<times> http_response" where
  "post_chat prov t1 t2 w req =
     (if errors req \<noteq> [] then (w, Response 400 (ErrorsBody (errors req)))
      else
        (case findOne (store w) (chatId req) (userId req) of
           None \<Rightarrow> (w, Response 404 (MessageBody ''Chat not found''))
         | Some chat \<Rightarrow>
             (case save (store w) (chatId req) (push chat (userMessage (body_message req) t1)) t1 of
                Inl e \<Rightarrow> (w, Response 500 (MessageBody ''Server error''))
              | Inr (st1, chat1) \<Rightarrow>
                  (let w1 = emit (chatId req)
                              (NewMessage (chatId req) (userMessage (body_message req) t1))
                              (w\<lparr>store := st1\<rparr>);
                       selectedModel = or_string (body_model req) (chat_model chat1)
                   in (case prov selectedModel (apiMessages chat1) of
                         Completed aiResponse usage \<Rightarrow>
                           (let assistantMessage =
                                  chat_assistantMessage aiResponse usage selectedModel t2;
                                chat2 = calculateTotalTokens (push chat1 assistantMessage)
                            in (case save (store w1) (chatId req) chat2 t2 of
                                  Inl e \<Rightarrow> api_error t2 w1 (chatId req) chat2 selectedModel None
                                | Inr (st2, chat3) \<Rightarrow>
                                    (emit (chatId req) (NewMessage (chatId req) assistantMessage)
                                       (w1\<lparr>store := st2\<rparr>),
                                     Response 200 (ChatSuccess assistantMessage usage))))
                       | Failed err \<Rightarrow> api_error t2 w1 (chatId req) chat1 selectedModel err)))))"

section \<open>routes/ai.js: \<open>POST /stream\<close>\<close>

subsection \<open>The values \<open>JSON.parse\<close> returns\<close>

text \<open>
  A number is kept as the text JavaScript prints for it, which is what string
  concatenation uses; \<open>0\<close> and \<open>-0\<close> both print as \<open>0\<close>. An object lists each key once.
  \<open>undefined\<close> is \<open>None\<close> of \<open>json option\<close>.
\<close>

datatype json =
    JNull
  | JBool bool
  | JNum string
  | JStr string
  | JArr "json list"
  | JObj "(string \<times> json) list"

datatype js_error = SyntaxError | TypeError

text \<open>
  \<open>v.k\<close> for the keys the handler reads (\<open>choices\<close>, \<open>delta\<close>, \<open>content\<close>, none of
  them a property of strings, arrays, numbers or booleans), and \<open>v[0]\<close>.
\<close>

definition get_prop :: "string \<Rightarrow> json \<Rightarrow> json option" where
  "get_prop k v = (case v of JObj kvs \<Rightarrow> map_of kvs k | _ \<Rightarrow> None)"

definition index0 :: "json \<Rightarrow> json option" where
  "index0 v =
     (case v of
        JArr xs \<Rightarrow> (case xs of [] \<Rightarrow> None | x # _ \<Rightarrow> Some x)
      | JStr s \<Rightarrow> (case s of [] \<Rightarrow> None | c # _ \<Rightarrow> Some (JStr [c]))
      | JObj kvs \<Rightarrow> map_of kvs ''0''
      | _ \<Rightarrow> None)"

text \<open>\<open>v?.f\<close>: \<open>undefined\<close> when \<open>v\<close> is \<open>undefined\<close> or \<open>null\<close>.\<close>

definition chain :: "(json \<Rightarrow> json option) \<Rightarrow> json option \<Rightarrow> json option" where
  "chain f v = (case v of None \<Rightarrow> None | Some JNull \<Rightarrow> None | Some x \<Rightarrow> f x)"

definition truthy :: "json option \<Rightarrow> bool" where
  "truthy v =
     (case v of
        None \<Rightarrow> False
      | Some JNull \<Rightarrow> False
      | Some (JBool b) \<Rightarrow> b
      | Some (JNum n) \<Rightarrow> n \<noteq> ''0''
      | Some (JStr s) \<Rightarrow> s \<noteq> []
      | Some (JArr xs) \<Rightarrow> True
      | Some (JObj kvs) \<Rightarrow> True)"

text \<open>
  \<open>parsed.choices?.[0]?.delta?.content || ''\<close>; reading \<open>.choices\<close> of \<open>null\<close>
  throws.
\<close>

definition delta_content :: "json \<Rightarrow> js_error + json" where
  "delta_content parsed =
     (case parsed of
        JNull \<Rightarrow> Inl TypeError
      | _ \<Rightarrow>
          (let v = chain (get_prop ''content'') (chain (get_prop ''delta'') (chain index0 (get_prop ''choices'' parsed)))
           in Inr (case v of None \<Rightarrow> JStr [] | Some x \<Rightarrow> if truthy v then x else JStr [])))"

fun join :: "string \<Rightarrow> string list \<Rightarrow> string" where
  "join sep [] = []"
| "join sep [x] = x"
| "join sep (x # y # ys) = x @ sep @ join sep (y # ys)"

text \<open>The results of a list of conversions: the first throw, or all the strings.\<close>

fun collect :: "(js_error + string) list \<Rightarrow> js_error + string list" where
  "collect [] = Inr []"
| "collect (Inl e # rs) = Inl e"
| "collect (Inr x # rs) = (case collect rs of Inl e \<Rightarrow> Inl e | Inr xs \<Rightarrow> Inr (x # xs))"

text \<open>
  The string that \<open>fullResponse += content\<close> appends. An array is joined with commas,
  \<open>null\<close> elements as empty strings. An object goes through \<open>Object.prototype.toString\<close>
  unless it has a key \<open>toString\<close> of its own: a value read by \<open>JSON.parse\<close> is never a
  function, so neither \<open>valueOf\<close> nor \<open>toString\<close> gives a primitive and the conversion
  throws.
\<close>

fun js_to_string :: "json \<Rightarrow> js_error + string" where
  "js_to_string JNull = Inr ''null''"
| "js_to_string (JBool b) = Inr (if b then ''true'' else ''false'')"
| "js_to_string (JNum n) = Inr n"
| "js_to_string (JStr s) = Inr s"
| "js_to_string (JArr xs) =
     (case collect (map (\<lambda>x. if x = JNull then Inr [] else js_to_string x) xs) of
        Inl e \<Rightarrow> Inl e
      | Inr ss \<Rightarrow> Inr (join '','' ss))"
| "js_to_string (JObj kvs) =
     (if ''toString'' \<in> set (map fst kvs) then Inl TypeError else Inr ''[object Object]'')"

subsection \<open>The response and the session\<close>

datatype sse_event = Partial json | Done message | ErrorEvent string

record response_stream =
  head :: "(nat \<times> (string \<times> string) list) option"
  written :: "sse_event list"
  ended :: bool

definition sse_headers :: "(string \<times> string) list" where
  "sse_headers =
     [(''Content-Type'', ''text/event-stream''), (''Cache-Control'', ''no-cache''),
      (''Connection'', ''keep-alive''), (''Access-Control-Allow-Origin'', ''*''),
      (''Access-Control-Allow-Headers'', ''Cache-Control'')]"

definition writeHead :: "nat \<Rightarrow> (string \<times> string) list \<Rightarrow> response_stream" where
  "writeHead code hs = \<lparr>head = Some (code, hs), written = [], ended = False\<rparr>"

text \<open>\<open>res.write\<close> and \<open>res.end\<close>; what is written after the end is dropped.\<close>

definition res_write :: "sse_event \<Rightarrow> response_stream \<Rightarrow> response_stream" where
  "res_write e r = (if ended r then r else r\<lparr>written := written r @ [e]\<rparr>)"

definition res_end :: "response_stream \<Rightarrow> response_stream" where
  "res_end r = r\<lparr>ended := True\<rparr>"

text \<open>
  What the callbacks of one request share: the store, the document \<open>chat\<close>, the
  variables \<open>selectedModel\<close> and \<open>fullResponse\<close>, and \<open>res\<close>. \<open>client_connected\<close> is
  the client's connection, which no callback reads.
\<close>

record session =
  s_world :: world
  s_chatId :: object_id
  s_chat :: chat
  selectedModel :: string
  fullResponse :: string
  res :: response_stream
  client_connected :: bool

text \<open>
  \<open>chunk.toString().split('\n')\<close>, on the text that \<open>chunk.toString()\<close> gives: the
  list always has a last element, empty when the text ends with a newline.
\<close>

fun split_newline :: "string \<Rightarrow> string list" where
  "split_newline [] = [[]]"
| "split_newline (c # cs) =
     (if c = newline then [] # split_newline cs
      else (case split_newline cs of [] \<Rightarrow> [[c]] | l # ls \<Rightarrow> (c # l) # ls))"

text \<open>
  The branch \<open>data === '[DONE]'\<close>, with the \<open>assistantMessage\<close> it builds. Its \<open>chat.save()\<close> is not awaited: a rejection
  leaves the store as it was, and the response is written either way.
\<close>

definition stream_assistantMessage :: "session \<Rightarrow> nat \<Rightarrow> message" where
  "stream_assistantMessage s now =
     \<lparr>role = Assistant, content = fullResponse s, timestamp = now,
      model = Some (selectedModel s), tokens = ceil4 (length (fullResponse s))\<rparr>"

definition on_done :: "nat \<Rightarrow> session \<Rightarrow> session" where
  "on_done now s =
     (let chat1 = calculateTotalTokens (push (s_chat s) (stream_assistantMessage s now));
          r = res_end (res_write (Done (stream_assistantMessage s now)) (res s))
      in (case save (store (s_world s)) (s_chatId s) chat1 now of
            Inl e \<Rightarrow> s\<lparr>s_chat := chat1, res := r\<rparr>
          | Inr (st, chat2) \<Rightarrow>
              s\<lparr>s_world := (s_world s)\<lparr>store := st\<rparr>, s_chat := chat2, res := r\<rparr>))"

text \<open>
  The \<open>try\<close> around \<open>JSON.parse(data)\<close>, with \<open>parse\<close> for \<open>JSON.parse\<close> (\<open>None\<close>
  when it throws): a throw of the parser, of the reading of \<open>.choices\<close> or of the
  concatenation is caught and the frame skipped.
\<close>

definition on_payload :: "(string \<Rightarrow> json option) \<Rightarrow> string \<Rightarrow> session \<Rightarrow> session" where
  "on_payload parse data s =
     (case parse data of
        None \<Rightarrow> s
      | Some parsed \<Rightarrow>
          (case delta_content parsed of
             Inl e \<Rightarrow> s
           | Inr delta \<Rightarrow>
               if truthy (Some delta)
               then (case js_to_string delta of
                       Inl e \<Rightarrow> s
                     | Inr appended \<Rightarrow>
                         s\<lparr>fullResponse := fullResponse s @ appended,
                           res := res_write (Partial delta) (res s)\<rparr>)
               else s))"

text \<open>The loop \<open>for (const line of lines)\<close>; the \<open>return\<close> after \<open>[DONE]\<close> leaves it.\<close>

fun process_lines :: "(string \<Rightarrow> json option) \<Rightarrow> nat \<Rightarrow> string list \<Rightarrow> session \<Rightarrow> session" where
  "process_lines parse now [] s = s"
| "process_lines parse now (line # lines) s =
     (if take 6 line = ''data: '' then
        (if drop 6 line = ''[DONE]'' then on_done now s
         else process_lines parse now lines (on_payload parse (drop 6 line) s))
      else process_lines parse now lines s)"

definition on_data :: "(string \<Rightarrow> json option) \<Rightarrow> nat \<Rightarrow> string \<Rightarrow> session \<Rightarrow> session" where
  "on_data parse now chunk s = process_lines parse now (split_newline chunk) s"

definition on_error :: "session \<Rightarrow> session" where
  "on_error s = s\<lparr>res := res_end (res_write (ErrorEvent ''Streaming error'') (res s))\<rparr>"

text \<open>
  What reaches the process once the callbacks are registered, in order: a chunk of
  the upstream, an error of the upstream, or the close of the client's connection.
  The handler registers \<open>data\<close> and \<open>error\<close> callbacks on the upstream and none on
  the request or the response, so a close runs no code of the handler.
\<close>

datatype session_event = Data string | StreamError | ClientDisconnect

definition step :: "(string \<Rightarrow> json option) \<Rightarrow> nat \<Rightarrow> session \<Rightarrow> session_event \<Rightarrow> session" where
  "step parse now s e =
     (case e of
        Data chunk \<Rightarrow> on_data parse now chunk s
      | StreamError \<Rightarrow> on_error s
      | ClientDisconnect \<Rightarrow> s\<lparr>client_connected := False\<rparr>)"

definition run_session :: "(string \<Rightarrow> json option) \<Rightarrow> nat \<Rightarrow> session_event list \<Rightarrow> session \<Rightarrow> session" where
  "run_session parse now evs s = foldl (step parse now) s evs"

text \<open>
  \<open>axios.post\<close> with \<open>responseType: 'stream'\<close>: \<open>None\<close> when it throws, or the events
  that follow.
\<close>

type_synonym stream_provider = "string \<Rightarrow> (role \<times> string) list \<Rightarrow> session_event list option"

datatype stream_outcome =
    Refused http_response
  | Finished world response_stream
  | Streaming session "session_event list"

text \<open>\<open>POST /stream\<close> up to the registration of the callbacks.\<close>

definition stream_open :: "stream_provider \<Rightarrow> nat \<Rightarrow> world \<Rightarrow> chat_request \<Rightarrow> stream_outcome" where
  "stream_open prov t1 w req =
     (if errors req \<noteq> [] then Refused (Response 400 (ErrorsBody (errors req)))
      else
        (let res0 = writeHead 200 sse_headers
         in (case findOne (store w) (chatId req) (userId req) of
               None \<Rightarrow> Finished w (res_end (res_write (ErrorEvent ''Chat not found'') res0))
             | Some chat \<Rightarrow>
                 (case save (store w) (chatId req) (push chat (userMessage (body_message req) t1)) t1 of
                    Inl e \<Rightarrow> Finished w (res_end (res_write (ErrorEvent ''Server error'') res0))
                  | Inr (st1, chat1) \<Rightarrow>
                      (let w1 = w\<lparr>store := st1\<rparr>;
                           model1 = or_string (body_model req) (chat_model chat1)
                       in (case prov model1 (apiMessages chat1) of
                             None \<Rightarrow>
                               Finished w1 (res_end (res_write (ErrorEvent ''AI service error'') res0))
                           | Some evs \<Rightarrow>
                               Streaming
                                 \<lparr>s_world = w1, s_chatId = chatId req, s_chat = chat1,
                                  selectedModel = model1, fullResponse = [], res = res0,
                                  client_connected = True\<rparr> evs))))))"

text \<open>
  \<open>POST /stream\<close> with everything that follows it: the world and the response once
  the events have been handled, \<open>t2\<close> being the clock then.
\<close>

definition post_stream :: "(string \<Rightarrow> json option) \<Rightarrow> stream_provider \<Rightarrow> nat \<Rightarrow> nat \<Rightarrow> world
    \<Rightarrow> chat_request \<Rightarrow> http_response + (world \<times> response_stream)" where
  "post_stream parse prov t1 t2 w req =
     (case stream_open prov t1 w req of
        Refused r \<Rightarrow> Inl r
      | Finished w' r \<Rightarrow> Inr (w', r)
      | Streaming s evs \<Rightarrow>
          (let s' = run_session parse t2 evs s in Inr (s_world s', res s')))"

section \<open>The provider's frames\<close>

text \<open>
  The upstream sends one frame per event: the prefix \<open>data: \<close>, the payload and an
  empty line. The payload of a delta is a JSON object of the shape \<open>delta_json d\<close>;
  the last frame carries \<open>[DONE]\<close>.
\<close>

definition sse_frame :: "string \<Rightarrow> string" where
  "sse_frame p = ''data: '' @ p @ [newline, newline]"

definition delta_json :: "string \<Rightarrow> json" where
  "delta_json d = JObj [(''choices'', JArr [JObj [(''delta'', JObj [(''content'', JStr d)])]])]"

text \<open>The payload \<open>p\<close> carries the text \<open>d\<close>, not empty, as its delta.\<close>

definition carries_delta :: "(string \<Rightarrow> json option) \<Rightarrow> string \<Rightarrow> string \<Rightarrow> bool" where
  "carries_delta parse p d =
     (case parse p of
        None \<Rightarrow> False
      | Some j \<Rightarrow> delta_content j = Inr (JStr d) \<and> d \<noteq> [])"

section \<open>The invariant of the data model\<close>

text \<open>\<open>totalTokens == sum(message.tokens for message in messages)\<close>.\<close>

definition tokens_consistent :: "chat \<Rightarrow> bool" where
  "tokens_consistent c = (totalTokens c = sum_list (map tokens (messages c)))"

section \<open>Example conversations and requests\<close>

text \<open>
  User 7 owns conversation 1: empty with the placeholder title (\<open>chat0\<close>), with a
  history (\<open>chat_hist\<close>), or starting with a system message (\<open>chat_sys\<close>). No
  conversation 2 exists.
\<close>

definition chat0 :: chat where
  "chat0 = \<lparr>title = ''New Chat'', user = 7, messages = [], chat_model = ''openai/gpt-3.5-turbo'',
            isActive = True, totalTokens = 0, lastActivity = 0\<rparr>"

definition world0 :: world where
  "world0 = \<lparr>store = Map.empty(1 \<mapsto> chat0), emitted = []\<rparr>"

definition request_hi :: chat_request where
  "request_hi = \<lparr>errors = [], chatId = 1, userId = 7, body_message = ''hi'', body_model = None\<rparr>"

text \<open>A first message of more than 50 characters, sent to \<open>POST /chat\<close> or \<open>POST /stream\<close>.\<close>

definition request_explain_chat :: chat_request where
  "request_explain_chat =
     \<lparr>errors = [], chatId = 1, userId = 7,
      body_message = ''Explain quicksort in detail please, step by step, with examples'',
      body_model = None\<rparr>"

definition request_missing :: chat_request where
  "request_missing = \<lparr>errors = [], chatId = 2, userId = 7, body_message = ''hi'', body_model = None\<rparr>"

definition failing_provider :: provider where
  "failing_provider selected context = Failed None"

text \<open>A provider that answers 200 with an empty \<open>content\<close>.\<close>

definition empty_provider :: provider where
  "empty_provider selected context = Completed [] (Some 7)"

definition silent_provider :: stream_provider where
  "silent_provider selected context = Some []"

definition chat_hist :: chat where
  "chat_hist = \<lparr>title = ''Greetings'', user = 7,
     messages = [\<lparr>role = User, content = ''hi'', timestamp = 1, model = None, tokens = 1\<rparr>,
                 \<lparr>role = Assistant, content = ''Hello!'', timestamp = 2,
                  model = Some ''openai/gpt-4'', tokens = 9\<rparr>],
     chat_model = ''openai/gpt-4'', isActive = True, totalTokens = 10, lastActivity = 2\<rparr>"

definition world_hist :: world where
  "world_hist = \<lparr>store = Map.empty(1 \<mapsto> chat_hist), emitted = []\<rparr>"

definition request_more :: message_request where
  "request_more = \<lparr>m_errors = [], m_chatId = 1, m_userId = 7, m_content = ''more'', m_role = User,
                    m_model = None, m_tokens = Some 1\<rparr>"

definition chat_sys :: chat where
  "chat_sys = \<lparr>title = ''New Chat'', user = 7,
     messages = [\<lparr>role = System, content = ''You are a helpful assistant.'', timestamp = 1,
                  model = None, tokens = 0\<rparr>],
     chat_model = ''openai/gpt-4'', isActive = True, totalTokens = 0, lastActivity = 1\<rparr>"

definition world_sys :: world where
  "world_sys = \<lparr>store = Map.empty(1 \<mapsto> chat_sys), emitted = []\<rparr>"

definition request_explain :: message_request where
  "request_explain = \<lparr>m_errors = [], m_chatId = 1, m_userId = 7,
     m_content = ''Explain quicksort in detail please, step by step, with examples'',
     m_role = User, m_model = None, m_tokens = None\<rparr>"

section \<open>Example frames and providers\<close>

text \<open>
  Payloads as the provider sends them, and one cut short. \<open>example_parse\<close> stands for
  \<open>JSON.parse\<close> on the payloads of the examples: it parses the three delta payloads
  and rejects every other text, as \<open>JSON.parse\<close> rejects the cut payload, a half of a
  payload, the rest of a frame and the half \<open>[DO\<close> of the sentinel.
\<close>

definition hel_payload :: string where
  \<open>hel_payload = ''{"choices":[{"delta":{"content":"Hel"}}]}''\<close>

definition lo_payload :: string where
  \<open>lo_payload = ''{"choices":[{"delta":{"content":"lo"}}]}''\<close>

definition hello_payload :: string where
  \<open>hello_payload = ''{"choices":[{"delta":{"content":"Hello"}}]}''\<close>

definition broken_payload :: string where
  \<open>broken_payload = ''{"choices":[{"delta":''\<close>

definition example_parse :: "string \<Rightarrow> json option" where
  "example_parse data =
     (if data = hel_payload then Some (delta_json ''Hel'')
      else if data = lo_payload then Some (delta_json ''lo'')
      else if data = hello_payload then Some (delta_json ''Hello'')
      else None)"

definition whole_chunks :: "string list" where
  "whole_chunks = [sse_frame hel_payload, sse_frame lo_payload, sse_frame ''[DONE]'']"

definition split_chunks :: "string list" where
  "split_chunks =
     [sse_frame hel_payload @ take 20 (sse_frame lo_payload),
      drop 20 (sse_frame lo_payload) @ sse_frame ''[DONE]'']"

definition hello_stream :: stream_provider where
  "hello_stream selected context = Some (map Data whole_chunks)"

definition split_stream :: stream_provider where
  "split_stream selected context = Some (map Data split_chunks)"

text \<open>The same bytes as \<open>whole_chunks\<close>, with the read boundary inside the \<open>[DONE]\<close> frame.\<close>

definition cut_sentinel_chunks :: "string list" where
  "cut_sentinel_chunks =
     [sse_frame hel_payload @ sse_frame lo_payload @ take 9 (sse_frame ''[DONE]''),
      drop 9 (sse_frame ''[DONE]'')]"

definition cut_sentinel_stream :: stream_provider where
  "cut_sentinel_stream selected context = Some (map Data cut_sentinel_chunks)"

definition disconnect_stream :: stream_provider where
  "disconnect_stream selected context =
     Some [Data (sse_frame hel_payload), ClientDisconnect, Data (sse_frame lo_payload),
           Data (sse_frame ''[DONE]'')]"

definition broken_stream :: stream_provider where
  "broken_stream selected context =
     Some (map Data [sse_frame hel_payload, sse_frame broken_payload, sse_frame lo_payload,
                     sse_frame ''[DONE]''])"

text \<open>
  The frames of \<open>broken_stream\<close> as one list, and the same bytes with the read boundary
  inside the frame that follows the malformed one.
\<close>

definition broken_chunks :: "string list" where
  "broken_chunks =
     [sse_frame hel_payload, sse_frame broken_payload, sse_frame lo_payload, sse_frame ''[DONE]'']"

definition broken_cut_chunks :: "string list" where
  "broken_cut_chunks =
     [sse_frame hel_payload @ sse_frame broken_payload @ take 20 (sse_frame lo_payload),
      drop 20 (sse_frame lo_payload) @ sse_frame ''[DONE]'']"

definition broken_cut_stream :: stream_provider where
  "broken_cut_stream selected context = Some (map Data broken_cut_chunks)"

definition single_stream :: stream_provider where
  "single_stream selected context = Some (map Data [sse_frame hello_payload, sse_frame ''[DONE]''])"

definition hello_provider :: provider where
  "hello_provider selected context = Completed ''Hello'' (Some 42)"

text \<open>The stored log of a conversation once \<open>POST /stream\<close> is over.\<close>

definition stream_log :: "http_response + world \<times> response_stream \<Rightarrow> object_id \<Rightarrow> message list option" where
  "stream_log out cid =
     (case out of Inl r \<Rightarrow> None | Inr (w, r) \<Rightarrow> map_option messages (store w cid))"

text \<open>The stored conversation and the response once \<open>POST /stream\<close> is over.\<close>

definition stream_chat :: "http_response + world \<times> response_stream \<Rightarrow> object_id \<Rightarrow> chat option" where
  "stream_chat out cid = (case out of Inl r \<Rightarrow> None | Inr (w, r) \<Rightarrow> store w cid)"

definition stream_response :: "http_response + world \<times> response_stream \<Rightarrow> response_stream option" where
  "stream_response out = (case out of Inl r \<Rightarrow> None | Inr (w, r) \<Rightarrow> Some r)"

text \<open>The session that \<open>POST /stream\<close> opens for \<open>request_hi\<close> on \<open>world0\<close> at time 1.\<close>

definition session0 :: session where
  "session0 =
     \<lparr>s_world = \<lparr>store = Map.empty(1 \<mapsto> chat0\<lparr>messages := [userMessage ''hi'' 1], lastActivity := 1\<rparr>),
                 emitted = []\<rparr>,
      s_chatId = 1,
      s_chat = chat0\<lparr>messages := [userMessage ''hi'' 1], lastActivity := 1\<rparr>,
      selectedModel = ''openai/gpt-3.5-turbo'', fullResponse = [],
      res = writeHead 200 sse_headers, client_connected = True\<rparr>"

section \<open>Lemmas\<close>

subsection \<open>The store and the schema\<close>

lemma findOne_Some:
  "findOne st cid uid = Some c \<Longrightarrow> st cid = Some c \<and> user c = uid \<and> isActive c"
  by (auto simp: findOne_def split: option.splits if_splits)

lemma calculateTotalTokens_eq:
  "calculateTotalTokens c = c\<lparr>totalTokens := total_tokens (messages c)\<rparr>"
  by (simp add: calculateTotalTokens_def)

lemma or_string_nonempty: "b \<noteq> [] \<Longrightarrow> or_string a b \<noteq> []"
  by (simp add: or_string_def split: option.splits)

lemma save_pushed:
  assumes "st cid = Some c" and "chat_valid c'" and "messages c' = messages c @ ms" and "ms \<noteq> []"
  shows "save st cid c' now = Inr (st(cid \<mapsto> c'\<lparr>lastActivity := now\<rparr>), c'\<lparr>lastActivity := now\<rparr>)"
  using assms by (simp add: save_def Let_def)

lemma userMessage_valid: "text \<noteq> [] \<Longrightarrow> message_valid (userMessage text now)"
  by (simp add: message_valid_def userMessage_def)

lemma chat_model_push [simp]: "chat_model (push c m) = chat_model c"
  by (simp add: push_def)

lemma messages_push [simp]: "messages (push c m) = messages c @ [m]"
  by (simp add: push_def)

lemma chat_valid_push: "chat_valid c \<Longrightarrow> message_valid m \<Longrightarrow> chat_valid (push c m)"
  by (simp add: chat_valid_def push_def)

lemma chat_valid_lastActivity [simp]: "chat_valid (c\<lparr>lastActivity := t\<rparr>) = chat_valid c"
  by (simp add: chat_valid_def)

lemma chat_valid_totalTokens [simp]: "chat_valid (c\<lparr>totalTokens := t\<rparr>) = chat_valid c"
  by (simp add: chat_valid_def)

lemma apiMessages_lastActivity [simp]: "apiMessages (c\<lparr>lastActivity := t\<rparr>) = apiMessages c"
  by (simp add: apiMessages_def)

text \<open>The first half of \<open>POST /chat\<close> and \<open>POST /stream\<close>: the user message is stored.\<close>

lemma save_userMessage:
  assumes "findOne st cid uid = Some c" and "chat_valid c" and "text \<noteq> []"
  shows "save st cid (push c (userMessage text t1)) t1 =
           Inr (st(cid \<mapsto> (push c (userMessage text t1))\<lparr>lastActivity := t1\<rparr>),
                (push c (userMessage text t1))\<lparr>lastActivity := t1\<rparr>)"
proof -
  have "st cid = Some c" using findOne_Some [OF assms(1)] by simp
  moreover have "chat_valid (push c (userMessage text t1))"
    using assms(2,3) by (simp add: chat_valid_push userMessage_valid)
  moreover have "messages (push c (userMessage text t1)) = messages c @ [userMessage text t1]"
    by (simp add: push_def)
  ultimately show ?thesis
    by (rule save_pushed) simp
qed

lemma findOne_inactive:
  "findOne (st(cid \<mapsto> c\<lparr>isActive := False\<rparr>)) cid uid = None"
  by (simp add: findOne_def)

subsection \<open>Lines and chunks\<close>

lemma split_newline_nonempty: "split_newline cs \<noteq> []"
  by (induction cs) (simp_all split: list.splits)

lemma split_newline_line:
  "newline \<notin> set p \<Longrightarrow> split_newline (p @ newline # rest) = p # split_newline rest"
  by (induction p) auto

lemma split_newline_append:
  "split_newline (a @ newline # b) = split_newline a @ split_newline b"
proof (induction a)
  case Nil
  then show ?case by simp
next
  case (Cons c a)
  obtain l ls where "split_newline a = l # ls"
    using split_newline_nonempty [of a] by (cases "split_newline a") simp_all
  with Cons show ?case by simp
qed

lemma split_newline_snoc: "split_newline (a @ [newline]) = split_newline a @ [[]]"
  using split_newline_append [of a "[]"] by simp

lemma data_done_line:
  "take 6 l = ''data: '' \<Longrightarrow> drop 6 l = ''[DONE]'' \<Longrightarrow> l = ''data: [DONE]''"
proof -
  assume a: "take 6 l = ''data: ''" and b: "drop 6 l = ''[DONE]''"
  have "l = take 6 l @ drop 6 l" by simp
  then show ?thesis unfolding a b by simp
qed

lemma process_lines_append_no_done:
  "''data: [DONE]'' \<notin> set ls1 \<Longrightarrow>
   process_lines parse t (ls1 @ ls2) s = process_lines parse t ls2 (process_lines parse t ls1 s)"
proof (induction ls1 arbitrary: s)
  case Nil
  then show ?case by simp
next
  case (Cons l ls1)
  then have nd: "l \<noteq> ''data: [DONE]''" and rest: "''data: [DONE]'' \<notin> set ls1"
    by auto
  have "\<not> (take 6 l = ''data: '' \<and> drop 6 l = ''[DONE]'')"
    using nd data_done_line by blast
  then show ?case
    using Cons.IH [OF rest] by simp
qed

text \<open>A chunk that ends with a newline: its last line is empty.\<close>

lemma chunk_lines:
  assumes "ch \<noteq> []" and "last ch = newline"
  shows "split_newline ch = butlast (split_newline ch) @ [[]]"
    and "split_newline (ch @ rest) = butlast (split_newline ch) @ split_newline rest"
proof -
  obtain x where ch: "ch = x @ [newline]"
    using assms by (cases ch rule: rev_cases) simp_all
  show "split_newline ch = butlast (split_newline ch) @ [[]]"
    by (simp add: ch split_newline_snoc)
  show "split_newline (ch @ rest) = butlast (split_newline ch) @ split_newline rest"
    using split_newline_append [of x rest] by (simp add: ch split_newline_snoc)
qed

lemma on_data_chunk:
  assumes "ch \<noteq> []" and "last ch = newline" and "''data: [DONE]'' \<notin> set (split_newline ch)"
  shows "on_data parse t ch s = process_lines parse t (butlast (split_newline ch)) s"
proof -
  have nd: "''data: [DONE]'' \<notin> set (butlast (split_newline ch))"
    using assms(3) by (meson in_set_butlastD)
  have "on_data parse t ch s = process_lines parse t (butlast (split_newline ch) @ [[]]) s"
    unfolding on_data_def using chunk_lines(1) [OF assms(1,2)] by simp
  also have "\<dots> = process_lines parse t (butlast (split_newline ch)) s"
    using nd by (simp add: process_lines_append_no_done)
  finally show ?thesis .
qed

lemma lines_concat:
  "\<forall>ch\<in>set cs. ch \<noteq> [] \<and> last ch = newline \<Longrightarrow>
   split_newline (concat cs @ c) =
     concat (map (\<lambda>ch. butlast (split_newline ch)) cs) @ split_newline c"
proof (induction cs)
  case Nil
  then show ?case by simp
next
  case (Cons ch cs)
  then have "ch \<noteq> []" and "last ch = newline"
    by simp_all
  from chunk_lines(2) [OF this, of "concat cs @ c"] Cons show ?case
    by simp
qed

lemma run_session_append:
  "run_session parse t (evs1 @ evs2) s = run_session parse t evs2 (run_session parse t evs1 s)"
  by (simp add: run_session_def)

lemma run_session_Data:
  "run_session parse t (Data ch # evs) s = run_session parse t evs (on_data parse t ch s)"
  by (simp add: run_session_def step_def)

lemma run_chunks_lines:
  "\<forall>ch\<in>set cs. ch \<noteq> [] \<and> last ch = newline \<and> ''data: [DONE]'' \<notin> set (split_newline ch) \<Longrightarrow>
   run_session parse t (map Data cs) s =
     process_lines parse t (concat (map (\<lambda>ch. butlast (split_newline ch)) cs)) s"
proof (induction cs arbitrary: s)
  case Nil
  then show ?case by (simp add: run_session_def)
next
  case (Cons ch cs)
  then have ch: "ch \<noteq> []" "last ch = newline" "''data: [DONE]'' \<notin> set (split_newline ch)"
    by simp_all
  have nd: "''data: [DONE]'' \<notin> set (butlast (split_newline ch))"
    using ch(3) by (meson in_set_butlastD)
  have rest: "\<forall>ch\<in>set cs. ch \<noteq> [] \<and> last ch = newline \<and> ''data: [DONE]'' \<notin> set (split_newline ch)"
    using Cons.prems by simp
  show ?case
    by (simp add: run_session_Data on_data_chunk [OF ch] Cons.IH [OF rest]
        process_lines_append_no_done [OF nd])
qed

lemma run_chunks_concat:
  assumes "\<forall>ch\<in>set cs. ch \<noteq> [] \<and> last ch = newline \<and> ''data: [DONE]'' \<notin> set (split_newline ch)"
  shows "run_session parse t (map Data (cs @ [c])) s = on_data parse t (concat cs @ c) s"
proof -
  have l: "\<forall>ch\<in>set cs. ch \<noteq> [] \<and> last ch = newline"
    using assms by simp
  have nd: "''data: [DONE]'' \<notin> set (concat (map (\<lambda>ch. butlast (split_newline ch)) cs))"
    using assms by (auto dest: in_set_butlastD)
  have "run_session parse t (map Data (cs @ [c])) s =
          on_data parse t c (run_session parse t (map Data cs) s)"
    by (simp add: run_session_def step_def)
  also have "\<dots> = process_lines parse t (split_newline c)
                     (process_lines parse t (concat (map (\<lambda>ch. butlast (split_newline ch)) cs)) s)"
    by (simp add: run_chunks_lines [OF assms] on_data_def)
  also have "\<dots> = on_data parse t (concat cs @ c) s"
    unfolding on_data_def lines_concat [OF l] using nd
    by (simp add: process_lines_append_no_done)
  finally show ?thesis .
qed

subsection \<open>Frames\<close>

lemma newline_not_in_prefix: "newline \<notin> set ''data: ''"
  by (simp add: newline_def)

lemma split_newline_frame:
  assumes "newline \<notin> set p"
  shows "split_newline (sse_frame p @ rest) = (''data: '' @ p) # [] # split_newline rest"
proof -
  have n: "newline \<notin> set (''data: '' @ p)"
    using assms newline_not_in_prefix by simp
  have "sse_frame p @ rest = (''data: '' @ p) @ newline # ([] @ newline # rest)"
    by (simp add: sse_frame_def)
  then show ?thesis
    using split_newline_line [OF n, of "[] @ newline # rest"] by simp
qed

lemma split_newline_frames:
  "\<forall>p\<in>set ps. newline \<notin> set p \<Longrightarrow>
   split_newline (concat (map sse_frame ps) @ rest) =
     concat (map (\<lambda>p. [''data: '' @ p, []]) ps) @ split_newline rest"
  by (induction ps) (simp_all add: split_newline_frame)

lemma process_lines_payload:
  "p \<noteq> ''[DONE]'' \<Longrightarrow>
   process_lines parse t ((''data: '' @ p) # [] # ls) s =
     process_lines parse t ls (on_payload parse p s)"
  by simp

lemma process_lines_frames:
  "\<forall>p\<in>set ps. p \<noteq> ''[DONE]'' \<Longrightarrow>
   process_lines parse t (concat (map (\<lambda>p. [''data: '' @ p, []]) ps) @ ls) s =
     process_lines parse t ls (foldl (\<lambda>s p. on_payload parse p s) s ps)"
proof (induction ps arbitrary: s)
  case Nil
  then show ?case by simp
next
  case (Cons p ps)
  then have "p \<noteq> ''[DONE]''" and "\<forall>p\<in>set ps. p \<noteq> ''[DONE]''"
    by simp_all
  then show ?case
    using Cons.IH [of "on_payload parse p s"] process_lines_payload [of p parse t _ s]
    by simp
qed

lemma process_lines_done:
  "process_lines parse t (''data: [DONE]'' # ls) s = on_done t s"
  by simp

lemma on_data_frames:
  assumes "\<forall>p\<in>set ps. newline \<notin> set p \<and> p \<noteq> ''[DONE]''"
  shows "on_data parse t (concat (map sse_frame ps) @ sse_frame ''[DONE]'') s =
           on_done t (foldl (\<lambda>s p. on_payload parse p s) s ps)"
proof -
  have a: "\<forall>p\<in>set ps. newline \<notin> set p" and b: "\<forall>p\<in>set ps. p \<noteq> ''[DONE]''"
    using assms by simp_all
  have d: "split_newline (sse_frame ''[DONE]'') = [''data: [DONE]'', [], []]"
    using split_newline_frame [of "''[DONE]''" "[]"] by (simp add: newline_def)
  show ?thesis
    unfolding on_data_def split_newline_frames [OF a] d process_lines_frames [OF b]
    by (rule process_lines_done)
qed

lemma frames_no_done_line:
  assumes "\<forall>p\<in>set ps. newline \<notin> set p \<and> p \<noteq> ''[DONE]''"
  shows "''data: [DONE]'' \<notin> set (split_newline (concat (map sse_frame ps)))"
proof -
  have a: "\<forall>p\<in>set ps. newline \<notin> set p"
    using assms by simp
  have "split_newline (concat (map sse_frame ps) @ []) =
          concat (map (\<lambda>p. [''data: '' @ p, []]) ps) @ [[]]"
    using split_newline_frames [OF a, of "[]"] by simp
  then show ?thesis
    using assms by auto
qed

lemma run_frames:
  assumes ps: "\<forall>p\<in>set ps. newline \<notin> set p \<and> p \<noteq> ''[DONE]''"
    and cut: "concat cs @ c = concat (map sse_frame ps)"
    and nl: "\<forall>ch\<in>set cs. ch \<noteq> [] \<and> last ch = newline"
  shows "run_session parse t (map Data (cs @ [c @ sse_frame ''[DONE]''])) s =
           on_done t (foldl (\<lambda>s p. on_payload parse p s) s ps)"
proof -
  have nd: "''data: [DONE]'' \<notin> set (split_newline (concat cs @ c))"
    unfolding cut using ps by (rule frames_no_done_line)
  have all: "\<forall>ch\<in>set cs. ch \<noteq> [] \<and> last ch = newline \<and> ''data: [DONE]'' \<notin> set (split_newline ch)"
  proof
    fix ch assume m: "ch \<in> set cs"
    then have e: "ch \<noteq> []" "last ch = newline"
      using nl by simp_all
    have "set (butlast (split_newline ch)) \<subseteq> set (split_newline (concat cs @ c))"
      unfolding lines_concat [OF nl] using m by auto
    then have "''data: [DONE]'' \<notin> set (butlast (split_newline ch))"
      using nd by auto
    then have "''data: [DONE]'' \<notin> set (butlast (split_newline ch) @ [[]])"
      by simp
    then have "''data: [DONE]'' \<notin> set (split_newline ch)"
      using chunk_lines(1) [OF e] by simp
    with e show "ch \<noteq> [] \<and> last ch = newline \<and> ''data: [DONE]'' \<notin> set (split_newline ch)"
      by simp
  qed
  have "run_session parse t (map Data (cs @ [c @ sse_frame ''[DONE]''])) s =
          on_data parse t (concat cs @ c @ sse_frame ''[DONE]'') s"
    by (rule run_chunks_concat [OF all])
  also have "\<dots> = on_data parse t (concat (map sse_frame ps) @ sse_frame ''[DONE]'') s"
    using cut by (metis append_assoc)
  finally show ?thesis
    unfolding on_data_frames [OF ps] .
qed

subsection \<open>The handlers of a session\<close>

lemma delta_content_delta_json: "delta_content (delta_json d) = Inr (JStr d)"
  by (simp add: delta_content_def delta_json_def get_prop_def chain_def index0_def truthy_def)

lemma on_payload_delta:
  assumes "parse p = Some j" and "delta_content j = Inr (JStr d)" and "d \<noteq> []"
  shows "on_payload parse p s =
           s\<lparr>fullResponse := fullResponse s @ d, res := res_write (Partial (JStr d)) (res s)\<rparr>"
  using assms by (simp add: on_payload_def truthy_def)

lemma on_payload_malformed: "parse p = None \<Longrightarrow> on_payload parse p s = s"
  by (simp add: on_payload_def)

lemma stream_assistantMessage_valid:
  "fullResponse s \<noteq> [] \<Longrightarrow> selectedModel s \<noteq> [] \<Longrightarrow> message_valid (stream_assistantMessage s t)"
  by (simp add: message_valid_def stream_assistantMessage_def)

lemma on_done_saved:
  assumes "store (s_world s) (s_chatId s) = Some (s_chat s)"
    and "chat_valid (s_chat s)" and "fullResponse s \<noteq> []" and "selectedModel s \<noteq> []"
  shows "on_done t s =
           s\<lparr>s_world := (s_world s)\<lparr>store := (store (s_world s))(s_chatId s \<mapsto>
                 (calculateTotalTokens (push (s_chat s) (stream_assistantMessage s t)))
                   \<lparr>lastActivity := t\<rparr>)\<rparr>,
             s_chat := (calculateTotalTokens (push (s_chat s) (stream_assistantMessage s t)))
                   \<lparr>lastActivity := t\<rparr>,
             res := res_end (res_write (Done (stream_assistantMessage s t)) (res s))\<rparr>"
proof -
  let ?c1 = "calculateTotalTokens (push (s_chat s) (stream_assistantMessage s t))"
  have v: "chat_valid ?c1"
    using assms(2,3,4)
    by (simp add: calculateTotalTokens_eq chat_valid_push stream_assistantMessage_valid)
  have m: "messages ?c1 = messages (s_chat s) @ [stream_assistantMessage s t]"
    by (simp add: calculateTotalTokens_eq)
  have sv: "save (store (s_world s)) (s_chatId s) ?c1 t =
              Inr ((store (s_world s))(s_chatId s \<mapsto> ?c1\<lparr>lastActivity := t\<rparr>), ?c1\<lparr>lastActivity := t\<rparr>)"
    by (rule save_pushed [where st = "store (s_world s)" and cid = "s_chatId s", OF assms(1) v m])
       simp
  show ?thesis
    by (simp add: on_done_def Let_def sv)
qed

lemma stream_open_streaming:
  assumes "errors req = []"
    and "findOne (store w) (chatId req) (userId req) = Some c"
    and "chat_valid c"
    and "body_message req \<noteq> []"
    and "prov (or_string (body_model req) (chat_model c))
           (apiMessages (push c (userMessage (body_message req) t1))) = Some evs"
  shows "stream_open prov t1 w req =
           Streaming
             \<lparr>s_world = w\<lparr>store := (store w)(chatId req \<mapsto>
                  (push c (userMessage (body_message req) t1))\<lparr>lastActivity := t1\<rparr>)\<rparr>,
              s_chatId = chatId req,
              s_chat = (push c (userMessage (body_message req) t1))\<lparr>lastActivity := t1\<rparr>,
              selectedModel = or_string (body_model req) (chat_model c),
              fullResponse = [], res = writeHead 200 sse_headers, client_connected = True\<rparr>
             evs"
proof -
  have s1: "save (store w) (chatId req) (push c (userMessage (body_message req) t1)) t1 =
        Inr ((store w)(chatId req \<mapsto> (push c (userMessage (body_message req) t1))\<lparr>lastActivity := t1\<rparr>),
             (push c (userMessage (body_message req) t1))\<lparr>lastActivity := t1\<rparr>)"
    using assms(2,3,4) by (rule save_userMessage)
  show ?thesis
    using assms(1,2) by (simp add: stream_open_def s1 assms(5) Let_def)
qed

lemma on_payload_carried:
  assumes "carries_delta parse p d"
  shows "on_payload parse p s =
           s\<lparr>fullResponse := fullResponse s @ d, res := res_write (Partial (JStr d)) (res s)\<rparr>"
proof -
  obtain j where "parse p = Some j" and "delta_content j = Inr (JStr d)" and "d \<noteq> []"
    using assms by (auto simp: carries_delta_def split: option.splits)
  then show ?thesis
    by (rule on_payload_delta)
qed

lemma payloads_deltas:
  "list_all2 (carries_delta parse) ps ds \<Longrightarrow>
   foldl (\<lambda>s p. on_payload parse p s) s ps =
     s\<lparr>fullResponse := fullResponse s @ concat ds,
       res := foldl (\<lambda>r d. res_write (Partial (JStr d)) r) (res s) ds\<rparr>"
proof (induction ps ds arbitrary: s rule: list_all2_induct)
  case Nil
  then show ?case by simp
next
  case (Cons p ps d ds)
  show ?case
    by (simp add: on_payload_carried [OF Cons.hyps(1)] Cons.IH)
qed

lemma written_partials:
  "\<not> ended r \<Longrightarrow>
   foldl (\<lambda>r d. res_write (Partial (JStr d)) r) r ds =
     r\<lparr>written := written r @ map (\<lambda>d. Partial (JStr d)) ds\<rparr>"
  by (induction ds arbitrary: r) (simp_all add: res_write_def)

text \<open>Frames that are all deltas, with no sentinel after them.\<close>

lemma on_data_frames_only:
  assumes "\<forall>p\<in>set ps. newline \<notin> set p \<and> p \<noteq> ''[DONE]''"
  shows "on_data parse t (concat (map sse_frame ps)) s = foldl (\<lambda>s p. on_payload parse p s) s ps"
proof -
  have a: "\<forall>p\<in>set ps. newline \<notin> set p" and b: "\<forall>p\<in>set ps. p \<noteq> ''[DONE]''"
    using assms by simp_all
  have "split_newline (concat (map sse_frame ps) @ []) =
          concat (map (\<lambda>p. [''data: '' @ p, []]) ps) @ [[]]"
    using split_newline_frames [OF a, of "[]"] by simp
  then have "on_data parse t (concat (map sse_frame ps)) s =
          process_lines parse t (concat (map (\<lambda>p. [''data: '' @ p, []]) ps) @ [[]]) s"
    by (simp add: on_data_def)
  then show ?thesis
    unfolding process_lines_frames [OF b] by simp
qed

lemma chunks_no_done_line:
  assumes ps: "\<forall>p\<in>set ps. newline \<notin> set p \<and> p \<noteq> ''[DONE]''"
    and cut: "concat cs @ c = concat (map sse_frame ps)"
    and nl: "\<forall>ch\<in>set cs. ch \<noteq> [] \<and> last ch = newline"
  shows "\<forall>ch\<in>set cs. ch \<noteq> [] \<and> last ch = newline \<and> ''data: [DONE]'' \<notin> set (split_newline ch)"
proof
  fix ch assume m: "ch \<in> set cs"
  then have e: "ch \<noteq> []" "last ch = newline"
    using nl by simp_all
  have nd: "''data: [DONE]'' \<notin> set (split_newline (concat cs @ c))"
    unfolding cut using ps by (rule frames_no_done_line)
  have "set (butlast (split_newline ch)) \<subseteq> set (split_newline (concat cs @ c))"
    unfolding lines_concat [OF nl] using m by auto
  then have "''data: [DONE]'' \<notin> set (butlast (split_newline ch))"
    using nd by auto
  then have "''data: [DONE]'' \<notin> set (butlast (split_newline ch) @ [[]])"
    by simp
  then have "''data: [DONE]'' \<notin> set (split_newline ch)"
    using chunk_lines(1) [OF e] by simp
  with e show "ch \<noteq> [] \<and> last ch = newline \<and> ''data: [DONE]'' \<notin> set (split_newline ch)"
    by simp
qed

text \<open>The close of the client's connection changes \<open>client_connected\<close> and nothing else.\<close>

lemma on_payload_disconnected:
  "on_payload parse p (s\<lparr>client_connected := b\<rparr>) = (on_payload parse p s)\<lparr>client_connected := b\<rparr>"
  by (simp add: on_payload_def split: option.splits sum.splits)

lemma on_done_disconnected:
  "on_done t (s\<lparr>client_connected := b\<rparr>) = (on_done t s)\<lparr>client_connected := b\<rparr>"
  by (simp add: on_done_def stream_assistantMessage_def Let_def split: sum.splits prod.splits)

lemma process_lines_disconnected:
  "process_lines parse t ls (s\<lparr>client_connected := b\<rparr>) =
     (process_lines parse t ls s)\<lparr>client_connected := b\<rparr>"
  by (induction ls arbitrary: s) (simp_all add: on_payload_disconnected on_done_disconnected)

lemma step_disconnected:
  "step parse t (s\<lparr>client_connected := False\<rparr>) e = (step parse t s e)\<lparr>client_connected := False\<rparr>"
  by (cases e) (simp_all add: step_def on_data_def process_lines_disconnected on_error_def)

lemma run_session_disconnected:
  "run_session parse t evs (s\<lparr>client_connected := False\<rparr>) =
     (run_session parse t evs s)\<lparr>client_connected := False\<rparr>"
  unfolding run_session_def
  by (induction evs arbitrary: s) (simp_all add: step_disconnected)

lemma run_session_insert_disconnect:
  "run_session parse t (evs1 @ ClientDisconnect # evs2) s =
     (run_session parse t (evs1 @ evs2) s)\<lparr>client_connected := False\<rparr>"
proof -
  have "run_session parse t (evs1 @ ClientDisconnect # evs2) s =
          run_session parse t evs2 ((run_session parse t evs1 s)\<lparr>client_connected := False\<rparr>)"
    by (simp add: run_session_def step_def)
  then show ?thesis
    by (simp add: run_session_disconnected run_session_append)
qed

text \<open>
  \<open>POST /stream\<close> when the upstream sends the frames of the payloads \<open>ps\<close> and then
  \<open>[DONE]\<close>, in chunks that end at newlines, with or without a close of the client's
  connection on the way (\<open>evs\<close> is the chunks, or the chunks with one
  \<open>ClientDisconnect\<close> among them): \<open>s'\<close> is the session after the payloads, \<open>x\<close> its text
  and \<open>r\<close> its response.
\<close>

lemma post_stream_frames:
  assumes "errors req = []"
    and "findOne (store w) (chatId req) (userId req) = Some c"
    and "chat_valid c"
    and "body_message req \<noteq> []"
    and "prov (or_string (body_model req) (chat_model c))
           (apiMessages (push c (userMessage (body_message req) t1))) = Some evs"
    and "evs = map Data (cs @ [ch @ sse_frame ''[DONE]'']) \<or>
         (\<exists>evs1 evs2. evs = evs1 @ ClientDisconnect # evs2 \<and>
            evs1 @ evs2 = map Data (cs @ [ch @ sse_frame ''[DONE]'']))"
    and "\<forall>p\<in>set ps. newline \<notin> set p \<and> p \<noteq> ''[DONE]''"
    and "concat cs @ ch = concat (map sse_frame ps)"
    and "\<forall>x\<in>set cs. x \<noteq> [] \<and> last x = newline"
    and "fullResponse s' = x" and "x \<noteq> []" and "res s' = r"
    and "s' = foldl (\<lambda>s p. on_payload parse p s)
             \<lparr>s_world = w\<lparr>store := (store w)(chatId req \<mapsto>
                  (push c (userMessage (body_message req) t1))\<lparr>lastActivity := t1\<rparr>)\<rparr>,
              s_chatId = chatId req,
              s_chat = (push c (userMessage (body_message req) t1))\<lparr>lastActivity := t1\<rparr>,
              selectedModel = or_string (body_model req) (chat_model c),
              fullResponse = [], res = writeHead 200 sse_headers, client_connected = True\<rparr> ps"
    and "s_world s' = w\<lparr>store := (store w)(chatId req \<mapsto>
                  (push c (userMessage (body_message req) t1))\<lparr>lastActivity := t1\<rparr>)\<rparr>"
    and "s_chat s' = (push c (userMessage (body_message req) t1))\<lparr>lastActivity := t1\<rparr>"
    and "s_chatId s' = chatId req"
    and "selectedModel s' = or_string (body_model req) (chat_model c)"
  shows "post_stream parse prov t1 t2 w req =
           Inr (w\<lparr>store := (store w)(chatId req \<mapsto>
                   c\<lparr>messages := messages c @
                        [userMessage (body_message req) t1,
                         \<lparr>role = Assistant, content = x, timestamp = t2,
                          model = Some (or_string (body_model req) (chat_model c)),
                          tokens = ceil4 (length x)\<rparr>],
                      totalTokens := total_tokens (messages c @
                        [userMessage (body_message req) t1,
                         \<lparr>role = Assistant, content = x, timestamp = t2,
                          model = Some (or_string (body_model req) (chat_model c)),
                          tokens = ceil4 (length x)\<rparr>]),
                      lastActivity := t2\<rparr>)\<rparr>,
                res_end (res_write
                  (Done \<lparr>role = Assistant, content = x, timestamp = t2,
                          model = Some (or_string (body_model req) (chat_model c)),
                          tokens = ceil4 (length x)\<rparr>) r))"
proof -
  let ?c1 = "(push c (userMessage (body_message req) t1))\<lparr>lastActivity := t1\<rparr>"
  let ?sel = "or_string (body_model req) (chat_model c)"
  let ?s0 = "\<lparr>s_world = w\<lparr>store := (store w)(chatId req \<mapsto> ?c1)\<rparr>, s_chatId = chatId req,
              s_chat = ?c1, selectedModel = ?sel, fullResponse = [],
              res = writeHead 200 sse_headers, client_connected = True\<rparr>"
  let ?chunks = "map Data (cs @ [ch @ sse_frame ''[DONE]''])"
  have op: "stream_open prov t1 w req = Streaming ?s0 evs"
    using assms(1-5) by (rule stream_open_streaming)
  have run: "run_session parse t2 ?chunks ?s0 = on_done t2 s'"
    unfolding assms(13) using assms(7,8,9) by (rule run_frames)
  have fin: "s_world (run_session parse t2 evs ?s0) = s_world (on_done t2 s') \<and>
             res (run_session parse t2 evs ?s0) = res (on_done t2 s')"
  proof -
    from assms(6) show ?thesis
    proof
      assume "evs = ?chunks"
      then show ?thesis by (simp only: run)
    next
      assume "\<exists>evs1 evs2. evs = evs1 @ ClientDisconnect # evs2 \<and> evs1 @ evs2 = ?chunks"
      then obtain evs1 evs2 where e: "evs = evs1 @ ClientDisconnect # evs2"
        and c: "evs1 @ evs2 = ?chunks"
        by blast
      have "run_session parse t2 evs ?s0 = (on_done t2 s')\<lparr>client_connected := False\<rparr>"
        unfolding e run_session_insert_disconnect c run ..
      then show ?thesis by simp
    qed
  qed
  have sel: "?sel \<noteq> []"
    using assms(3) by (simp add: or_string_nonempty chat_valid_def)
  have st: "store (s_world s') (s_chatId s') = Some (s_chat s')"
    by (simp add: assms(14,15,16))
  have am: "stream_assistantMessage s' t2 =
              \<lparr>role = Assistant, content = x, timestamp = t2, model = Some ?sel,
               tokens = ceil4 (length x)\<rparr>"
    by (simp add: stream_assistantMessage_def assms(10,17))
  have d: "on_done t2 s' =
           s'\<lparr>s_world := (s_world s')\<lparr>store := (store (s_world s'))(s_chatId s' \<mapsto>
                 (calculateTotalTokens (push (s_chat s') (stream_assistantMessage s' t2)))
                   \<lparr>lastActivity := t2\<rparr>)\<rparr>,
             s_chat := (calculateTotalTokens (push (s_chat s') (stream_assistantMessage s' t2)))
                   \<lparr>lastActivity := t2\<rparr>,
             res := res_end (res_write (Done (stream_assistantMessage s' t2)) (res s'))\<rparr>"
    by (rule on_done_saved [OF st])
       (simp_all add: assms(3,4,10,11,15,17) chat_valid_push userMessage_valid sel)
  have "post_stream parse prov t1 t2 w req =
          Inr (s_world (run_session parse t2 evs ?s0), res (run_session parse t2 evs ?s0))"
    unfolding post_stream_def op by (simp only: stream_outcome.case Let_def)
  also have "\<dots> = Inr (s_world (on_done t2 s'), res (on_done t2 s'))"
    using fin by simp
  also have "\<dots> = Inr ((s_world s')\<lparr>store := (store (s_world s'))(s_chatId s' \<mapsto>
                 (calculateTotalTokens (push (s_chat s') (stream_assistantMessage s' t2)))
                   \<lparr>lastActivity := t2\<rparr>)\<rparr>,
             res_end (res_write (Done (stream_assistantMessage s' t2)) (res s')))"
    unfolding d by simp
  finally show ?thesis
    unfolding am assms(12,14,15,16)
    by (simp add: calculateTotalTokens_eq push_def)
qed

text \<open>The same when every payload carries a delta: \<open>ds\<close> are the deltas, in order.\<close>

lemma post_stream_deltas:
  assumes "errors req = []"
    and "findOne (store w) (chatId req) (userId req) = Some c"
    and "chat_valid c"
    and "body_message req \<noteq> []"
    and "prov (or_string (body_model req) (chat_model c))
           (apiMessages (push c (userMessage (body_message req) t1))) = Some evs"
    and "evs = map Data (cs @ [ch @ sse_frame ''[DONE]'']) \<or>
         (\<exists>evs1 evs2. evs = evs1 @ ClientDisconnect # evs2 \<and>
            evs1 @ evs2 = map Data (cs @ [ch @ sse_frame ''[DONE]'']))"
    and "\<forall>p\<in>set ps. newline \<notin> set p \<and> p \<noteq> ''[DONE]''"
    and "concat cs @ ch = concat (map sse_frame ps)"
    and "\<forall>x\<in>set cs. x \<noteq> [] \<and> last x = newline"
    and "list_all2 (carries_delta parse) ps ds"
    and "concat ds \<noteq> []"
  shows "post_stream parse prov t1 t2 w req =
           Inr (w\<lparr>store := (store w)(chatId req \<mapsto>
                   c\<lparr>messages := messages c @
                        [userMessage (body_message req) t1,
                         \<lparr>role = Assistant, content = concat ds, timestamp = t2,
                          model = Some (or_string (body_model req) (chat_model c)),
                          tokens = ceil4 (length (concat ds))\<rparr>],
                      totalTokens := total_tokens (messages c @
                        [userMessage (body_message req) t1,
                         \<lparr>role = Assistant, content = concat ds, timestamp = t2,
                          model = Some (or_string (body_model req) (chat_model c)),
                          tokens = ceil4 (length (concat ds))\<rparr>]),
                      lastActivity := t2\<rparr>)\<rparr>,
                \<lparr>head = Some (200, sse_headers),
                 written = map (\<lambda>d. Partial (JStr d)) ds @
                   [Done \<lparr>role = Assistant, content = concat ds, timestamp = t2,
                          model = Some (or_string (body_model req) (chat_model c)),
                          tokens = ceil4 (length (concat ds))\<rparr>],
                 ended = True\<rparr>)"
proof -
  let ?s0 = "\<lparr>s_world = w\<lparr>store := (store w)(chatId req \<mapsto>
                  (push c (userMessage (body_message req) t1))\<lparr>lastActivity := t1\<rparr>)\<rparr>,
              s_chatId = chatId req,
              s_chat = (push c (userMessage (body_message req) t1))\<lparr>lastActivity := t1\<rparr>,
              selectedModel = or_string (body_model req) (chat_model c),
              fullResponse = [], res = writeHead 200 sse_headers, client_connected = True\<rparr>"
  define s' where "s' = foldl (\<lambda>s p. on_payload parse p s) ?s0 ps"
  have w: "foldl (\<lambda>r d. res_write (Partial (JStr d)) r) (writeHead 200 sse_headers) ds =
             \<lparr>head = Some (200, sse_headers), written = map (\<lambda>d. Partial (JStr d)) ds,
              ended = False\<rparr>"
    by (simp add: written_partials writeHead_def)
  have s': "s' = ?s0\<lparr>fullResponse := concat ds,
                     res := \<lparr>head = Some (200, sse_headers),
                             written = map (\<lambda>d. Partial (JStr d)) ds, ended = False\<rparr>\<rparr>"
    unfolding s'_def payloads_deltas [OF assms(10)] by (simp add: w)
  have "post_stream parse prov t1 t2 w req =
           Inr (w\<lparr>store := (store w)(chatId req \<mapsto>
                   c\<lparr>messages := messages c @
                        [userMessage (body_message req) t1,
                         \<lparr>role = Assistant, content = concat ds, timestamp = t2,
                          model = Some (or_string (body_model req) (chat_model c)),
                          tokens = ceil4 (length (concat ds))\<rparr>],
                      totalTokens := total_tokens (messages c @
                        [userMessage (body_message req) t1,
                         \<lparr>role = Assistant, content = concat ds, timestamp = t2,
                          model = Some (or_string (body_model req) (chat_model c)),
                          tokens = ceil4 (length (concat ds))\<rparr>]),
                      lastActivity := t2\<rparr>)\<rparr>,
                res_end (res_write
                  (Done \<lparr>role = Assistant, content = concat ds, timestamp = t2,
                          model = Some (or_string (body_model req) (chat_model c)),
                          tokens = ceil4 (length (concat ds))\<rparr>)
                  \<lparr>head = Some (200, sse_headers),
                   written = map (\<lambda>d. Partial (JStr d)) ds, ended = False\<rparr>))"
    by (rule post_stream_frames
              [where prov = prov and parse = parse and ps = ps and s' = s' and evs = evs,
               OF assms(1-9) _ assms(11) _ s'_def])
       (simp_all add: s')
  then show ?thesis
    by (simp add: res_write_def res_end_def)
qed

lemma post_chat_completed:
  assumes "errors req = []"
    and "findOne (store w) (chatId req) (userId req) = Some c"
    and "chat_valid c"
    and "body_message req \<noteq> []"
    and "prov (or_string (body_model req) (chat_model c))
           (apiMessages (push c (userMessage (body_message req) t1))) = Completed x usage"
    and "x \<noteq> []"
  shows "post_chat prov t1 t2 w req =
           (\<lparr>store = (store w)(chatId req \<mapsto>
                c\<lparr>messages := messages c @
                     [userMessage (body_message req) t1,
                      chat_assistantMessage x usage (or_string (body_model req) (chat_model c)) t2],
                   totalTokens := total_tokens (messages c @
                     [userMessage (body_message req) t1,
                      chat_assistantMessage x usage (or_string (body_model req) (chat_model c)) t2]),
                   lastActivity := t2\<rparr>),
             emitted = emitted w @
               [(chatId req, NewMessage (chatId req) (userMessage (body_message req) t1)),
                (chatId req, NewMessage (chatId req)
                   (chat_assistantMessage x usage (or_string (body_model req) (chat_model c)) t2))]\<rparr>,
            Response 200
              (ChatSuccess
                 (chat_assistantMessage x usage (or_string (body_model req) (chat_model c)) t2) usage))"
proof -
  let ?u = "userMessage (body_message req) t1"
  let ?sel = "or_string (body_model req) (chat_model c)"
  let ?c1 = "(push c ?u)\<lparr>lastActivity := t1\<rparr>"
  let ?st1 = "(store w)(chatId req \<mapsto> ?c1)"
  let ?a = "chat_assistantMessage x usage ?sel t2"
  let ?c2 = "calculateTotalTokens (push ?c1 ?a)"
  let ?w1 = "emit (chatId req) (NewMessage (chatId req) ?u) (w\<lparr>store := ?st1\<rparr>)"
  have s1: "save (store w) (chatId req) (push c ?u) t1 = Inr (?st1, ?c1)"
    using assms(2,3,4) by (rule save_userMessage)
  have sel: "?sel \<noteq> []"
    using assms(3) by (simp add: or_string_nonempty chat_valid_def)
  have av: "message_valid ?a"
    using assms(6) sel by (simp add: message_valid_def chat_assistantMessage_def)
  have v2: "chat_valid ?c2"
    using assms(3,4) av by (simp add: calculateTotalTokens_eq chat_valid_push userMessage_valid)
  have m2: "messages ?c2 = messages ?c1 @ [?a]"
    by (simp add: calculateTotalTokens_eq)
  have st: "store ?w1 = ?st1"
    by (simp add: emit_def)
  have s2: "save (store ?w1) (chatId req) ?c2 t2 =
              Inr (?st1(chatId req \<mapsto> ?c2\<lparr>lastActivity := t2\<rparr>), ?c2\<lparr>lastActivity := t2\<rparr>)"
    unfolding st
    by (rule save_pushed [where st = ?st1 and cid = "chatId req" and c = ?c1, OF _ v2 m2]) simp_all
  have "post_chat prov t1 t2 w req =
          (emit (chatId req) (NewMessage (chatId req) ?a)
             (?w1\<lparr>store := ?st1(chatId req \<mapsto> ?c2\<lparr>lastActivity := t2\<rparr>)\<rparr>),
           Response 200 (ChatSuccess ?a usage))"
    using assms(1,2) by (simp add: post_chat_def s1 assms(5) Let_def s2)
  then show ?thesis
    by (simp add: emit_def calculateTotalTokens_eq push_def)
qed


lemma stream_log_Inr: "stream_log (Inr (w, r)) cid = map_option messages (store w cid)"
  by (simp add: stream_log_def)

subsection \<open>The examples\<close>

lemma example_request:
  "errors request_hi = []"
  "findOne (store world0) (chatId request_hi) (userId request_hi) = Some chat0"
  "chat_valid chat0"
  "body_message request_hi \<noteq> []"
  by (simp_all add: request_hi_def findOne_def world0_def chat0_def chat_valid_def)

lemma example_parse_payloads:
  "example_parse hel_payload = Some (delta_json ''Hel'')"
  "example_parse lo_payload = Some (delta_json ''lo'')"
  "example_parse hello_payload = Some (delta_json ''Hello'')"
  "example_parse broken_payload = None"
  by (simp_all add: example_parse_def hel_payload_def lo_payload_def hello_payload_def
      broken_payload_def)

lemma example_payload_lines:
  "newline \<notin> set hel_payload" "hel_payload \<noteq> ''[DONE]''"
  "newline \<notin> set lo_payload" "lo_payload \<noteq> ''[DONE]''"
  "newline \<notin> set hello_payload" "hello_payload \<noteq> ''[DONE]''"
  "newline \<notin> set broken_payload" "broken_payload \<noteq> ''[DONE]''"
  by (simp_all add: hel_payload_def lo_payload_def hello_payload_def broken_payload_def newline_def)

lemma example_values:
  "chatId request_hi = 1" "userId request_hi = 7" "body_message request_hi = ''hi''"
  "or_string (body_model request_hi) (chat_model chat0) = ''openai/gpt-3.5-turbo''"
  "messages chat0 = []"
  by (simp_all add: request_hi_def chat0_def or_string_def)

lemma session0_opened:
  "stream_open hello_stream 1 world0 request_hi = Streaming session0 (map Data whole_chunks)"
proof -
  have p: "hello_stream (or_string (body_model request_hi) (chat_model chat0))
             (apiMessages (push chat0 (userMessage (body_message request_hi) 1))) =
           Some (map Data whole_chunks)"
    by (simp add: hello_stream_def)
  show ?thesis
    unfolding stream_open_streaming [where prov = hello_stream, OF example_request p] session0_def
    by (simp add: example_values push_def world0_def)
qed

lemma frame_ends_with_newline: "sse_frame p \<noteq> [] \<and> last (sse_frame p) = newline"
  by (simp add: sse_frame_def)

section \<open>The token total\<close>

text \<open>
  C1. After every append the conversation's \<open>totalTokens\<close> should be the sum of its
  messages' \<open>tokens\<close>. \<open>POST /chat\<close> pushes the user message and the error placeholder
  without \<open>calculateTotalTokens\<close>: on the consistent empty conversation \<open>chat0\<close>, the
  message \<open>hi\<close> and a failing provider leave the token counts \<open>[1, 0]\<close> stored with
  \<open>totalTokens = 0\<close>. The appends that call \<open>calculateTotalTokens\<close> keep the
  invariant: the assistant's answer on \<open>POST /chat\<close>, and \<open>POST /:chatId/messages\<close>.
\<close>

theorem post_chat_stale_totalTokens:
  "tokens_consistent chat0 \<and>
   map_option (\<lambda>c. (map tokens (messages c), totalTokens c, tokens_consistent c))
     (store (fst (post_chat failing_provider 1 2 world0 request_hi)) 1) = Some ([1, 0], 0, False) \<and>
   map_option (\<lambda>c. (map tokens (messages c), totalTokens c, tokens_consistent c))
     (store (fst (post_chat hello_provider 1 2 world0 request_hi)) 1) = Some ([1, 42], 43, True) \<and>
   map_option (\<lambda>c. (map tokens (messages c), totalTokens c, tokens_consistent c))
     (store (fst (post_messages 3 world_hist request_more)) 1) = Some ([1, 9, 1], 11, True)"
  by code_simp

section \<open>Frames and network reads\<close>

text \<open>
  C2, as the claim states it, fails. The same bytes arrive once frame by frame and
  once with the second frame cut in two: \<open>split('\n')\<close> runs on each chunk alone and
  nothing is kept from one chunk to the next, so the first half does not parse, the
  second half does not start with \<open>data: \<close>, and the stored answer is \<open>Hel\<close> where it
  is \<open>Hello\<close> for the whole frames.
\<close>

theorem split_frame_loses_delta:
  "concat split_chunks = concat whole_chunks \<and>
   map_option (map (\<lambda>m. (role m, content m)))
     (stream_log (post_stream example_parse hello_stream 1 2 world0 request_hi) 1) =
     Some [(User, ''hi''), (Assistant, ''Hello'')] \<and>
   map_option (map (\<lambda>m. (role m, content m)))
     (stream_log (post_stream example_parse split_stream 1 2 world0 request_hi) 1) =
     Some [(User, ''hi''), (Assistant, ''Hel'')]"
  by code_simp

text \<open>
  C2, amended. The decoder splits every chunk into lines at the newlines, on its own,
  and keeps nothing from one chunk to the next. When no frame is cut by a read (every
  chunk before the last \<open>c\<close> is not empty and ends with a newline), the chunks together
  are the frames of the payloads \<open>ps\<close>, each payload one line and none of them the
  sentinel, and each payload carries a delta that is a string and not empty, the
  session extracts every delta
  and appends it, in the order of the frames: \<open>fullResponse\<close> grows by the deltas
  \<open>ds\<close> concatenated, each delta is written to the response as one partial event,
  and nothing else of the session changes.
\<close>

theorem deltas_of_whole_frames:
  assumes "\<forall>ch\<in>set cs. ch \<noteq> [] \<and> last ch = newline"
    and "concat cs @ c = concat (map sse_frame ps)"
    and "\<forall>p\<in>set ps. newline \<notin> set p \<and> p \<noteq> ''[DONE]''"
    and "list_all2 (carries_delta parse) ps ds"
  shows "run_session parse t (map Data (cs @ [c])) s =
           s\<lparr>fullResponse := fullResponse s @ concat ds,
             res := foldl (\<lambda>r d. res_write (Partial (JStr d)) r) (res s) ds\<rparr>"
proof -
  have all: "\<forall>ch\<in>set cs. ch \<noteq> [] \<and> last ch = newline \<and> ''data: [DONE]'' \<notin> set (split_newline ch)"
    using assms(3,2,1) by (rule chunks_no_done_line)
  have "run_session parse t (map Data (cs @ [c])) s = on_data parse t (concat cs @ c) s"
    by (rule run_chunks_concat [OF all])
  also have "\<dots> = foldl (\<lambda>s p. on_payload parse p s) s ps"
    unfolding assms(2) using assms(3) by (rule on_data_frames_only)
  also have "\<dots> = s\<lparr>fullResponse := fullResponse s @ concat ds,
                       res := foldl (\<lambda>r d. res_write (Partial (JStr d)) r) (res s) ds\<rparr>"
    using assms(4) by (rule payloads_deltas)
  finally show ?thesis .
qed

theorem deltas_of_whole_frames_witness:
  "sse_frame hel_payload \<noteq> [] \<and> last (sse_frame hel_payload) = newline \<and>
   concat [sse_frame hel_payload] @ sse_frame lo_payload = concat (map sse_frame [hel_payload, lo_payload]) \<and>
   carries_delta example_parse hel_payload ''Hel'' \<and> carries_delta example_parse lo_payload ''lo'' \<and>
   run_session example_parse 2 (map Data [sse_frame hel_payload, sse_frame lo_payload]) session0 =
     session0\<lparr>fullResponse := ''Hello'',
              res := \<lparr>head = Some (200, sse_headers),
                      written = [Partial (JStr ''Hel''), Partial (JStr ''lo'')], ended = False\<rparr>\<rparr>"
proof -
  have nl: "\<forall>ch\<in>set [sse_frame hel_payload]. ch \<noteq> [] \<and> last ch = newline"
    by (simp add: frame_ends_with_newline)
  have cut: "concat [sse_frame hel_payload] @ sse_frame lo_payload =
               concat (map sse_frame [hel_payload, lo_payload])"
    by simp
  have ps: "\<forall>p\<in>set [hel_payload, lo_payload]. newline \<notin> set p \<and> p \<noteq> ''[DONE]''"
    by (simp add: example_payload_lines)
  have c: "carries_delta example_parse hel_payload ''Hel''" "carries_delta example_parse lo_payload ''lo''"
    by (simp_all add: carries_delta_def example_parse_payloads delta_content_delta_json)
  then have ds: "list_all2 (carries_delta example_parse) [hel_payload, lo_payload] [''Hel'', ''lo'']"
    by simp
  have s: "fullResponse session0 = []" "res session0 = writeHead 200 sse_headers"
    by (simp_all add: session0_def)
  from deltas_of_whole_frames [OF nl cut ps ds, of 2 session0] c
  show ?thesis
    by (simp add: s frame_ends_with_newline res_write_def writeHead_def)
qed

section \<open>A stream of two deltas\<close>

text \<open>
  C3, as the claim states it, fails. The upstream delivers the frames with \<open>Hel\<close>
  and \<open>lo\<close> and the \<open>[DONE]\<close> frame, the same bytes as \<open>whole_chunks\<close>, with the read
  boundary inside the \<open>[DONE]\<close> frame: neither read has the line \<open>data: [DONE]\<close>, so
  the handler never reaches the save. No assistant message is stored and the response
  is not ended.
\<close>

theorem cut_sentinel_stores_nothing:
  "concat cut_sentinel_chunks = concat whole_chunks \<and>
   map_option (map (\<lambda>m. (role m, content m)))
     (stream_log (post_stream example_parse cut_sentinel_stream 1 2 world0 request_hi) 1) =
     Some [(User, ''hi'')] \<and>
   map_option ended
     (stream_response (post_stream example_parse cut_sentinel_stream 1 2 world0 request_hi)) =
     Some False"
  by code_simp

text \<open>
  C3, amended. \<open>POST /stream\<close> with a valid request on an active conversation of the
  caller, when the upstream delivers a frame with the delta \<open>Hel\<close>, a frame with the
  delta \<open>lo\<close> and the \<open>[DONE]\<close> frame, and no frame is cut by a read (every chunk
  before the last is not empty and ends with a newline, and the last ends with the
  whole \<open>[DONE]\<close> frame): the stored log grows by the user message and exactly one
  assistant message, whose content is \<open>Hello\<close>, and the response carries the two
  partial events and exactly one final event, with that message, and is ended.
\<close>

theorem post_stream_hello:
  assumes "errors req = []"
    and "findOne (store w) (chatId req) (userId req) = Some c"
    and "chat_valid c"
    and "body_message req \<noteq> []"
    and "prov (or_string (body_model req) (chat_model c))
           (apiMessages (push c (userMessage (body_message req) t1))) =
         Some (map Data (cs @ [ch @ sse_frame ''[DONE]'']))"
    and "concat cs @ ch = sse_frame p1 @ sse_frame p2"
    and "\<forall>x\<in>set cs. x \<noteq> [] \<and> last x = newline"
    and "parse p1 = Some j1" and "delta_content j1 = Inr (JStr ''Hel'')"
    and "parse p2 = Some j2" and "delta_content j2 = Inr (JStr ''lo'')"
    and "newline \<notin> set p1" and "p1 \<noteq> ''[DONE]''"
    and "newline \<notin> set p2" and "p2 \<noteq> ''[DONE]''"
  shows "post_stream parse prov t1 t2 w req =
           Inr (w\<lparr>store := (store w)(chatId req \<mapsto>
                   c\<lparr>messages := messages c @
                        [userMessage (body_message req) t1,
                         \<lparr>role = Assistant, content = ''Hello'', timestamp = t2,
                          model = Some (or_string (body_model req) (chat_model c)),
                          tokens = 2\<rparr>],
                      totalTokens := total_tokens (messages c @
                        [userMessage (body_message req) t1,
                         \<lparr>role = Assistant, content = ''Hello'', timestamp = t2,
                          model = Some (or_string (body_model req) (chat_model c)),
                          tokens = 2\<rparr>]),
                      lastActivity := t2\<rparr>)\<rparr>,
                \<lparr>head = Some (200, sse_headers),
                 written = [Partial (JStr ''Hel''), Partial (JStr ''lo''),
                            Done \<lparr>role = Assistant, content = ''Hello'', timestamp = t2,
                                  model = Some (or_string (body_model req) (chat_model c)),
                                  tokens = 2\<rparr>],
                 ended = True\<rparr>)"
proof -
  have ps: "\<forall>p\<in>set [p1, p2]. newline \<notin> set p \<and> p \<noteq> ''[DONE]''"
    using assms(12-15) by simp
  have cut: "concat cs @ ch = concat (map sse_frame [p1, p2])"
    using assms(6) by simp
  have ds: "list_all2 (carries_delta parse) [p1, p2] [''Hel'', ''lo'']"
    using assms(8-11) by (simp add: carries_delta_def)
  have ne: "concat [''Hel'', ''lo''] \<noteq> []"
    by simp
  have ev: "map Data (cs @ [ch @ sse_frame ''[DONE]'']) = map Data (cs @ [ch @ sse_frame ''[DONE]'']) \<or>
         (\<exists>evs1 evs2. map Data (cs @ [ch @ sse_frame ''[DONE]'']) = evs1 @ ClientDisconnect # evs2 \<and>
            evs1 @ evs2 = map Data (cs @ [ch @ sse_frame ''[DONE]'']))"
    by (rule disjI1) (rule refl)
  have v: "concat [''Hel'', ''lo''] = ''Hello''" "ceil4 (length ''Hello'') = 2"
    by (simp_all add: ceil4_def)
  note t = post_stream_deltas
      [where prov = prov and parse = parse and ps = "[p1, p2]" and ds = "[''Hel'', ''lo'']",
       OF assms(1-5) ev ps cut assms(7) ds ne]
  from t [unfolded v(1), unfolded v(2)] show ?thesis
    by simp
qed

theorem post_stream_hello_witness:
  "errors request_hi = [] \<and> findOne (store world0) 1 7 = Some chat0 \<and> chat_valid chat0 \<and>
   hello_stream ''openai/gpt-3.5-turbo'' (apiMessages (push chat0 (userMessage ''hi'' 1))) =
     Some (map Data [sse_frame hel_payload, sse_frame lo_payload, sse_frame ''[DONE]'']) \<and>
   last (sse_frame hel_payload) = newline \<and> last (sse_frame lo_payload) = newline \<and>
   example_parse hel_payload = Some (delta_json ''Hel'') \<and>
   example_parse lo_payload = Some (delta_json ''lo'') \<and>
   post_stream example_parse hello_stream 1 2 world0 request_hi =
     Inr (world0\<lparr>store := (store world0)(1 \<mapsto>
             chat0\<lparr>messages :=
                      [userMessage ''hi'' 1,
                       \<lparr>role = Assistant, content = ''Hello'', timestamp = 2,
                        model = Some ''openai/gpt-3.5-turbo'', tokens = 2\<rparr>],
                    totalTokens := 3, lastActivity := 2\<rparr>)\<rparr>,
          \<lparr>head = Some (200, sse_headers),
           written = [Partial (JStr ''Hel''), Partial (JStr ''lo''),
                      Done \<lparr>role = Assistant, content = ''Hello'', timestamp = 2,
                            model = Some ''openai/gpt-3.5-turbo'', tokens = 2\<rparr>],
           ended = True\<rparr>)"
proof -
  have p: "hello_stream (or_string (body_model request_hi) (chat_model chat0))
             (apiMessages (push chat0 (userMessage (body_message request_hi) 1))) =
           Some (map Data ([sse_frame hel_payload, sse_frame lo_payload] @ [[] @ sse_frame ''[DONE]'']))"
    by (simp add: hello_stream_def whole_chunks_def)
  have p': "hello_stream ''openai/gpt-3.5-turbo'' (apiMessages (push chat0 (userMessage ''hi'' 1))) =
     Some (map Data [sse_frame hel_payload, sse_frame lo_payload, sse_frame ''[DONE]''])"
    by (simp add: hello_stream_def whole_chunks_def)
  have cut: "concat [sse_frame hel_payload, sse_frame lo_payload] @ [] =
               sse_frame hel_payload @ sse_frame lo_payload"
    by simp
  have nl: "\<forall>x\<in>set [sse_frame hel_payload, sse_frame lo_payload]. x \<noteq> [] \<and> last x = newline"
    by (simp add: frame_ends_with_newline)
  note t = post_stream_hello
      [where parse = example_parse and prov = hello_stream and ?t1.0 = 1 and ?t2.0 = 2,
       OF example_request p cut nl
          example_parse_payloads(1) delta_content_delta_json
          example_parse_payloads(2) delta_content_delta_json
          example_payload_lines(1-4)]
  have f: "findOne (store world0) 1 7 = Some chat0"
    using example_request(2) by (simp add: example_values)
  have tk: "total_tokens ([] @ [userMessage ''hi'' 1,
                       \<lparr>role = Assistant, content = ''Hello'', timestamp = 2,
                        model = Some ''openai/gpt-3.5-turbo'', tokens = 2\<rparr>]) = 3"
    by code_simp
  from t [unfolded example_values, unfolded tk, unfolded append_Nil] f example_request(1,3)
    example_parse_payloads p'
  show ?thesis
    by (simp add: frame_ends_with_newline)
qed

section \<open>A malformed frame\<close>

text \<open>
  C4, as the claim states it, fails. The frames \<open>Hel\<close>, a payload that \<open>JSON.parse\<close>
  rejects, \<open>lo\<close> and \<open>[DONE]\<close> arrive with the read boundary inside the \<open>lo\<close> frame:
  the stored text is \<open>Hel\<close>, not the concatenation \<open>Hello\<close> of the valid frames.
\<close>

theorem cut_after_malformed_loses_delta:
  "concat broken_cut_chunks = concat broken_chunks \<and>
   example_parse broken_payload = None \<and>
   map_option (map (\<lambda>m. (role m, content m)))
     (stream_log (post_stream example_parse broken_cut_stream 1 2 world0 request_hi) 1) =
     Some [(User, ''hi''), (Assistant, ''Hel'')]"
  by code_simp

text \<open>
  C4, amended. \<open>POST /stream\<close> with a valid request on an active conversation of the
  caller, when the upstream delivers a frame with the delta \<open>d1\<close>, a frame whose
  payload \<open>JSON.parse\<close> rejects, a frame with the delta \<open>d2\<close> and the \<open>[DONE]\<close> frame,
  the deltas not empty, and no frame is cut by a read (every chunk before the last is
  not empty and ends with a newline, and the last ends with the whole \<open>[DONE]\<close>
  frame): the malformed frame is skipped, the response carries both partial events and
  ends only with the final event, and the stored assistant message has the content
  \<open>d1 @ d2\<close>.
\<close>

theorem post_stream_malformed_frame:
  assumes "errors req = []"
    and "findOne (store w) (chatId req) (userId req) = Some c"
    and "chat_valid c"
    and "body_message req \<noteq> []"
    and "prov (or_string (body_model req) (chat_model c))
           (apiMessages (push c (userMessage (body_message req) t1))) =
         Some (map Data (cs @ [ch @ sse_frame ''[DONE]'']))"
    and "concat cs @ ch = sse_frame p1 @ sse_frame bad @ sse_frame p2"
    and "\<forall>x\<in>set cs. x \<noteq> [] \<and> last x = newline"
    and "parse p1 = Some j1" and "delta_content j1 = Inr (JStr d1)" and "d1 \<noteq> []"
    and "parse bad = None"
    and "parse p2 = Some j2" and "delta_content j2 = Inr (JStr d2)" and "d2 \<noteq> []"
    and "newline \<notin> set p1" and "p1 \<noteq> ''[DONE]''"
    and "newline \<notin> set bad" and "bad \<noteq> ''[DONE]''"
    and "newline \<notin> set p2" and "p2 \<noteq> ''[DONE]''"
  shows "post_stream parse prov t1 t2 w req =
           Inr (w\<lparr>store := (store w)(chatId req \<mapsto>
                   c\<lparr>messages := messages c @
                        [userMessage (body_message req) t1,
                         \<lparr>role = Assistant, content = d1 @ d2, timestamp = t2,
                          model = Some (or_string (body_model req) (chat_model c)),
                          tokens = ceil4 (length (d1 @ d2))\<rparr>],
                      totalTokens := total_tokens (messages c @
                        [userMessage (body_message req) t1,
                         \<lparr>role = Assistant, content = d1 @ d2, timestamp = t2,
                          model = Some (or_string (body_model req) (chat_model c)),
                          tokens = ceil4 (length (d1 @ d2))\<rparr>]),
                      lastActivity := t2\<rparr>)\<rparr>,
                \<lparr>head = Some (200, sse_headers),
                 written = [Partial (JStr d1), Partial (JStr d2),
                            Done \<lparr>role = Assistant, content = d1 @ d2, timestamp = t2,
                                  model = Some (or_string (body_model req) (chat_model c)),
                                  tokens = ceil4 (length (d1 @ d2))\<rparr>],
                 ended = True\<rparr>)"
proof -
  let ?s0 = "\<lparr>s_world = w\<lparr>store := (store w)(chatId req \<mapsto>
                  (push c (userMessage (body_message req) t1))\<lparr>lastActivity := t1\<rparr>)\<rparr>,
              s_chatId = chatId req,
              s_chat = (push c (userMessage (body_message req) t1))\<lparr>lastActivity := t1\<rparr>,
              selectedModel = or_string (body_model req) (chat_model c),
              fullResponse = [], res = writeHead 200 sse_headers, client_connected = True\<rparr>"
  define s' where "s' = foldl (\<lambda>s p. on_payload parse p s) ?s0 [p1, bad, p2]"
  have s': "s' = ?s0\<lparr>fullResponse := d1 @ d2,
                     res := res_write (Partial (JStr d2))
                              (res_write (Partial (JStr d1)) (writeHead 200 sse_headers))\<rparr>"
    unfolding s'_def
    by (simp add: on_payload_delta [where parse = parse, OF assms(8,9,10)]
        on_payload_malformed [where parse = parse, OF assms(11)]
        on_payload_delta [where parse = parse, OF assms(12,13,14)])
  have ps: "\<forall>p\<in>set [p1, bad, p2]. newline \<notin> set p \<and> p \<noteq> ''[DONE]''"
    using assms(15-20) by simp
  have cut: "concat cs @ ch = concat (map sse_frame [p1, bad, p2])"
    using assms(6) by simp
  have ev: "map Data (cs @ [ch @ sse_frame ''[DONE]'']) = map Data (cs @ [ch @ sse_frame ''[DONE]'']) \<or>
         (\<exists>evs1 evs2. map Data (cs @ [ch @ sse_frame ''[DONE]'']) = evs1 @ ClientDisconnect # evs2 \<and>
            evs1 @ evs2 = map Data (cs @ [ch @ sse_frame ''[DONE]'']))"
    by (rule disjI1) (rule refl)
  have "post_stream parse prov t1 t2 w req =
           Inr (w\<lparr>store := (store w)(chatId req \<mapsto>
                   c\<lparr>messages := messages c @
                        [userMessage (body_message req) t1,
                         \<lparr>role = Assistant, content = d1 @ d2, timestamp = t2,
                          model = Some (or_string (body_model req) (chat_model c)),
                          tokens = ceil4 (length (d1 @ d2))\<rparr>],
                      totalTokens := total_tokens (messages c @
                        [userMessage (body_message req) t1,
                         \<lparr>role = Assistant, content = d1 @ d2, timestamp = t2,
                          model = Some (or_string (body_model req) (chat_model c)),
                          tokens = ceil4 (length (d1 @ d2))\<rparr>]),
                      lastActivity := t2\<rparr>)\<rparr>,
                res_end (res_write
                  (Done \<lparr>role = Assistant, content = d1 @ d2, timestamp = t2,
                          model = Some (or_string (body_model req) (chat_model c)),
                          tokens = ceil4 (length (d1 @ d2))\<rparr>)
                  (res_write (Partial (JStr d2))
                     (res_write (Partial (JStr d1)) (writeHead 200 sse_headers)))))"
    by (rule post_stream_frames
              [where prov = prov and parse = parse and ps = "[p1, bad, p2]" and s' = s',
               OF assms(1-5) ev ps cut assms(7) _ _ _ s'_def])
       (simp_all add: s' assms(10))
  then show ?thesis
    by (simp add: res_write_def res_end_def writeHead_def)
qed

theorem post_stream_malformed_frame_witness:
  "errors request_hi = [] \<and> findOne (store world0) 1 7 = Some chat0 \<and> chat_valid chat0 \<and>
   broken_stream ''openai/gpt-3.5-turbo'' (apiMessages (push chat0 (userMessage ''hi'' 1))) =
     Some (map Data [sse_frame hel_payload, sse_frame broken_payload, sse_frame lo_payload,
                     sse_frame ''[DONE]'']) \<and>
   last (sse_frame hel_payload) = newline \<and> last (sse_frame broken_payload) = newline \<and>
   last (sse_frame lo_payload) = newline \<and>
   example_parse hel_payload = Some (delta_json ''Hel'') \<and>
   example_parse broken_payload = None \<and>
   example_parse lo_payload = Some (delta_json ''lo'') \<and>
   post_stream example_parse broken_stream 1 2 world0 request_hi =
     Inr (world0\<lparr>store := (store world0)(1 \<mapsto>
             chat0\<lparr>messages :=
                      [userMessage ''hi'' 1,
                       \<lparr>role = Assistant, content = ''Hello'', timestamp = 2,
                        model = Some ''openai/gpt-3.5-turbo'', tokens = 2\<rparr>],
                    totalTokens := 3, lastActivity := 2\<rparr>)\<rparr>,
          \<lparr>head = Some (200, sse_headers),
           written = [Partial (JStr ''Hel''), Partial (JStr ''lo''),
                      Done \<lparr>role = Assistant, content = ''Hello'', timestamp = 2,
                            model = Some ''openai/gpt-3.5-turbo'', tokens = 2\<rparr>],
           ended = True\<rparr>)"
proof -
  have p: "broken_stream (or_string (body_model request_hi) (chat_model chat0))
             (apiMessages (push chat0 (userMessage (body_message request_hi) 1))) =
           Some (map Data ([sse_frame hel_payload, sse_frame broken_payload, sse_frame lo_payload]
                           @ [[] @ sse_frame ''[DONE]'']))"
    by (simp add: broken_stream_def)
  have p': "broken_stream ''openai/gpt-3.5-turbo'' (apiMessages (push chat0 (userMessage ''hi'' 1))) =
     Some (map Data [sse_frame hel_payload, sse_frame broken_payload, sse_frame lo_payload,
                     sse_frame ''[DONE]''])"
    by (simp add: broken_stream_def)
  have cut: "concat [sse_frame hel_payload, sse_frame broken_payload, sse_frame lo_payload] @ [] =
               sse_frame hel_payload @ sse_frame broken_payload @ sse_frame lo_payload"
    by simp
  have nl: "\<forall>x\<in>set [sse_frame hel_payload, sse_frame broken_payload, sse_frame lo_payload].
              x \<noteq> [] \<and> last x = newline"
    by (simp add: frame_ends_with_newline)
  have d: "''Hel'' \<noteq> []" "''lo'' \<noteq> []"
    by simp_all
  note t = post_stream_malformed_frame
      [where parse = example_parse and prov = broken_stream and ?t1.0 = 1 and ?t2.0 = 2,
       OF example_request p cut nl
          example_parse_payloads(1) delta_content_delta_json d(1)
          example_parse_payloads(4)
          example_parse_payloads(2) delta_content_delta_json d(2)
          example_payload_lines(1,2,7,8,3,4)]
  have f: "findOne (store world0) 1 7 = Some chat0"
    using example_request(2) by (simp add: example_values)
  have tk: "ceil4 (length (''Hel'' @ ''lo'')) = 2" "''Hel'' @ ''lo'' = ''Hello''"
    "total_tokens ([] @ [userMessage ''hi'' 1,
                       \<lparr>role = Assistant, content = ''Hello'', timestamp = 2,
                        model = Some ''openai/gpt-3.5-turbo'', tokens = 2\<rparr>]) = 3"
    by (simp add: ceil4_def, simp, code_simp)
  from t [unfolded tk(1), unfolded tk(2) example_values, unfolded tk(3), unfolded append_Nil] f
    example_request(1,3) example_parse_payloads p'
  show ?thesis
    by (simp add: frame_ends_with_newline)
qed

section \<open>The title of a conversation\<close>

text \<open>
  C5. The title should be derived from the first user message when the title is
  still \<open>New Chat\<close>. \<open>POST /chat\<close> and \<open>POST /stream\<close> push the user message and
  never derive a title: on the empty conversation \<open>chat0\<close> a first message of 63
  characters leaves \<open>New Chat\<close> on both. \<open>POST /:chatId/messages\<close> derives it under
  the guard \<open>chat.messages.length === 1\<close>, where its comment and \<open>generateTitle\<close>
  speak of the first user message: in a conversation that starts with a system message
  the first user message leaves \<open>New Chat\<close>. The same route on the empty conversation
  stores the first 50 characters and \<open>...\<close>.
\<close>

theorem title_not_derived:
  "map_option (\<lambda>c. (map role (messages c), title c))
     (store (fst (post_chat hello_provider 1 2 world0 request_explain_chat)) 1) =
     Some ([User, Assistant], ''New Chat'') \<and>
   map_option (\<lambda>c. (map role (messages c), title c))
     (stream_chat (post_stream example_parse hello_stream 1 2 world0 request_explain_chat) 1) =
     Some ([User, Assistant], ''New Chat'') \<and>
   map_option (\<lambda>c. (map role (messages c), title c))
     (store (fst (post_messages 5 world_sys request_explain)) 1) =
     Some ([System, User], ''New Chat'') \<and>
   map_option (\<lambda>c. (map role (messages c), title c))
     (store (fst (post_messages 5 world0 request_explain)) 1) =
     Some ([User], ''Explain quicksort in detail please, step by step, ...'')"
  by code_simp

section \<open>Soft delete\<close>

text \<open>
  C6, as the claim states it, fails: the second \<open>DELETE\<close> of the same conversation
  is answered 404 where the first was answered 200, because the filter of
  \<open>findOneAndUpdate\<close> asks for \<open>isActive: true\<close>.
\<close>

theorem second_delete_not_found:
  "snd (delete_chat world_hist 1 7) = Response 200 (DeleteSuccess ''Chat deleted successfully'') \<and>
   snd (delete_chat (fst (delete_chat world_hist 1 7)) 1 7) =
     Response 404 (MessageBody ''Chat not found'')"
  by code_simp

text \<open>
  C6, amended. A soft delete of an active conversation of the caller clears
  \<open>isActive\<close> and keeps the messages. A second soft delete is answered 404 and leaves
  the store as the first left it; so is every later valid append request to that
  conversation, through \<open>POST /:chatId/messages\<close> and \<open>POST /chat\<close> (404) and through
  \<open>POST /stream\<close> (the error event \<open>Chat not found\<close>).
\<close>

theorem soft_delete:
  assumes "findOne (store w) cid uid = Some c"
    and "errors req = []" and "chatId req = cid"
    and "m_errors mreq = []" and "m_chatId mreq = cid"
  shows "let w' = w\<lparr>store := (store w)(cid \<mapsto> c\<lparr>isActive := False\<rparr>)\<rparr> in
         delete_chat w cid uid = (w', Response 200 (DeleteSuccess ''Chat deleted successfully'')) \<and>
         delete_chat w' cid uid = (w', Response 404 (MessageBody ''Chat not found'')) \<and>
         post_messages now w' mreq = (w', Response 404 (MessageBody ''Chat not found'')) \<and>
         post_chat prov t1 t2 w' req = (w', Response 404 (MessageBody ''Chat not found'')) \<and>
         post_stream parse sprov t1 t2 w' req =
           Inr (w', \<lparr>head = Some (200, sse_headers), written = [ErrorEvent ''Chat not found''],
                     ended = True\<rparr>) \<and>
         map_option messages (store w' cid) = Some (messages c)"
  using assms
  by (simp add: Let_def delete_chat_def post_messages_def post_chat_def post_stream_def
      stream_open_def findOne_inactive writeHead_def res_write_def res_end_def)

theorem soft_delete_witness:
  "findOne (store world_hist) 1 7 = Some chat_hist \<and>
   snd (delete_chat world_hist 1 7) = Response 200 (DeleteSuccess ''Chat deleted successfully'') \<and>
   delete_chat (fst (delete_chat world_hist 1 7)) 1 7 =
     (fst (delete_chat world_hist 1 7), Response 404 (MessageBody ''Chat not found'')) \<and>
   post_messages 3 (fst (delete_chat world_hist 1 7)) request_more =
     (fst (delete_chat world_hist 1 7), Response 404 (MessageBody ''Chat not found'')) \<and>
   post_chat failing_provider 3 4 (fst (delete_chat world_hist 1 7)) request_hi =
     (fst (delete_chat world_hist 1 7), Response 404 (MessageBody ''Chat not found'')) \<and>
   map_option messages (store (fst (delete_chat world_hist 1 7)) 1) = Some (messages chat_hist)"
proof -
  have f: "findOne (store world_hist) 1 7 = Some chat_hist"
    by (simp add: findOne_def world_hist_def chat_hist_def)
  have e: "errors request_hi = []" "chatId request_hi = 1"
    by (simp_all add: request_hi_def)
  have m: "m_errors request_more = []" "m_chatId request_more = 1"
    by (simp_all add: request_more_def)
  from soft_delete [OF f e m, of 3 failing_provider 3 4 "\<lambda>data. None" silent_provider] f
  show ?thesis
    by (simp add: Let_def)
qed

section \<open>A provider that fails\<close>

text \<open>
  C7. On \<open>POST /chat\<close> a provider answer that cannot be used should leave the
  placeholder stored and emitted, and the cause reported to the caller. When the
  provider answers 200 with an empty \<open>content\<close>, the schema rejects the assistant
  message at \<open>chat.save()\<close> inside the \<open>try\<close>; the \<open>catch\<close> pushes the placeholder
  onto the document that still holds the rejected message, its \<open>chat.save()\<close> is
  rejected too, and the outer \<open>catch\<close> answers 500 \<open>Server error\<close>: only the user
  message is stored and emitted, no placeholder, no cause. When the call itself fails,
  the placeholder, an assistant message with the text \<open>Sorry, I encountered an error
  while processing your request. Please try again.\<close>, is stored and emitted, and the
  answer is 500 \<open>AI service temporarily unavailable\<close> with the error \<open>Unknown error\<close>.
\<close>

theorem empty_answer_not_recovered:
  "snd (post_chat empty_provider 1 2 world0 request_hi) = Response 500 (MessageBody ''Server error'') \<and>
   map_option (map (\<lambda>m. (role m, content m)) \<circ> messages)
     (store (fst (post_chat empty_provider 1 2 world0 request_hi)) 1) = Some [(User, ''hi'')] \<and>
   emitted (fst (post_chat empty_provider 1 2 world0 request_hi)) =
     [(1, NewMessage 1 (userMessage ''hi'' 1))] \<and>
   snd (post_chat failing_provider 1 2 world0 request_hi) =
     Response 500 (ChatFailure ''AI service temporarily unavailable'' ''Unknown error'') \<and>
   map_option (map (\<lambda>m. (role m, content m)) \<circ> messages)
     (store (fst (post_chat failing_provider 1 2 world0 request_hi)) 1) =
     Some [(User, ''hi''),
           (Assistant, ''Sorry, I encountered an error while processing your request. Please try again.'')] \<and>
   emitted (fst (post_chat failing_provider 1 2 world0 request_hi)) =
     [(1, NewMessage 1 (userMessage ''hi'' 1)),
      (1, NewMessage 1
            \<lparr>role = Assistant,
             content = ''Sorry, I encountered an error while processing your request. Please try again.'',
             timestamp = 2, model = Some ''openai/gpt-3.5-turbo'', tokens = 0\<rparr>)]"
  by code_simp

section \<open>The assistant message of the two paths\<close>

text \<open>
  C8, as the claim states it, fails: for the text \<open>Hello\<close> the message stored by
  \<open>POST /chat\<close> has the provider's \<open>usage.total_tokens\<close> (here 42) as \<open>tokens\<close>, the
  one stored by \<open>POST /stream\<close> has \<open>Math.ceil(5 / 4) = 2\<close>.
\<close>

theorem paths_differ_in_tokens:
  "map_option last (map_option messages (store (fst (post_chat hello_provider 1 2 world0 request_hi)) 1)) =
     Some \<lparr>role = Assistant, content = ''Hello'', timestamp = 2,
            model = Some ''openai/gpt-3.5-turbo'', tokens = 42\<rparr> \<and>
   map_option last (stream_log (post_stream example_parse single_stream 1 2 world0 request_hi) 1) =
     Some \<lparr>role = Assistant, content = ''Hello'', timestamp = 2,
            model = Some ''openai/gpt-3.5-turbo'', tokens = 2\<rparr>"
  by code_simp

text \<open>
  C8, amended. The same valid request on the same active conversation of the caller,
  at the same clock readings, for the same text, not empty: \<open>POST /chat\<close> receives it
  as the \<open>content\<close> of the completion, \<open>POST /stream\<close> as the deltas \<open>ds\<close> of the
  frames \<open>ps\<close>, each a string and not empty, followed by the \<open>[DONE]\<close> frame, with no
  frame cut by a read (every chunk before the last is not empty and ends with a
  newline, and the last ends with the whole \<open>[DONE]\<close> frame). Then the two paths store
  the same log up to the \<open>tokens\<close> of the assistant message: role, content (the
  deltas concatenated), model and timestamp are equal; \<open>tokens\<close> is
  \<open>usage?.total_tokens || 0\<close> on \<open>POST /chat\<close> and \<open>Math.ceil(text.length / 4)\<close> on
  \<open>POST /stream\<close>.
\<close>

theorem assistant_message_of_both_paths:
  assumes "errors req = []"
    and "findOne (store w) (chatId req) (userId req) = Some c"
    and "chat_valid c"
    and "body_message req \<noteq> []"
    and "concat ds \<noteq> []"
    and "provc (or_string (body_model req) (chat_model c))
           (apiMessages (push c (userMessage (body_message req) t1))) = Completed (concat ds) usage"
    and "provs (or_string (body_model req) (chat_model c))
           (apiMessages (push c (userMessage (body_message req) t1))) =
         Some (map Data (cs @ [ch @ sse_frame ''[DONE]'']))"
    and "concat cs @ ch = concat (map sse_frame ps)"
    and "\<forall>x\<in>set cs. x \<noteq> [] \<and> last x = newline"
    and "\<forall>p\<in>set ps. newline \<notin> set p \<and> p \<noteq> ''[DONE]''"
    and "list_all2 (carries_delta parse) ps ds"
  shows "map_option messages (store (fst (post_chat provc t1 t2 w req)) (chatId req)) =
           Some (messages c @
                   [userMessage (body_message req) t1,
                    \<lparr>role = Assistant, content = concat ds, timestamp = t2,
                     model = Some (or_string (body_model req) (chat_model c)),
                     tokens = or_zero usage\<rparr>]) \<and>
         stream_log (post_stream parse provs t1 t2 w req) (chatId req) =
           Some (messages c @
                   [userMessage (body_message req) t1,
                    \<lparr>role = Assistant, content = concat ds, timestamp = t2,
                     model = Some (or_string (body_model req) (chat_model c)),
                     tokens = ceil4 (length (concat ds))\<rparr>])"
proof -
  have ev: "map Data (cs @ [ch @ sse_frame ''[DONE]'']) = map Data (cs @ [ch @ sse_frame ''[DONE]'']) \<or>
         (\<exists>evs1 evs2. map Data (cs @ [ch @ sse_frame ''[DONE]'']) = evs1 @ ClientDisconnect # evs2 \<and>
            evs1 @ evs2 = map Data (cs @ [ch @ sse_frame ''[DONE]'']))"
    by (rule disjI1) (rule refl)
  note a = post_stream_deltas
      [where prov = provs and parse = parse and ps = ps and ds = ds,
       OF assms(1-4) assms(7) ev assms(10) assms(8) assms(9) assms(11) assms(5)]
  have b: "map_option messages (store (fst (post_chat provc t1 t2 w req)) (chatId req)) =
           Some (messages c @
                   [userMessage (body_message req) t1,
                    \<lparr>role = Assistant, content = concat ds, timestamp = t2,
                     model = Some (or_string (body_model req) (chat_model c)),
                     tokens = or_zero usage\<rparr>])"
    unfolding post_chat_completed [where prov = provc, OF assms(1-4) assms(6) assms(5)]
    by (simp add: chat_assistantMessage_def)
  show ?thesis
    unfolding a stream_log_Inr using b by simp
qed

theorem assistant_message_of_both_paths_witness:
  "errors request_hi = [] \<and> findOne (store world0) 1 7 = Some chat0 \<and> chat_valid chat0 \<and>
   hello_provider ''openai/gpt-3.5-turbo'' (apiMessages (push chat0 (userMessage ''hi'' 1))) =
     Completed ''Hello'' (Some 42) \<and>
   hello_stream ''openai/gpt-3.5-turbo'' (apiMessages (push chat0 (userMessage ''hi'' 1))) =
     Some (map Data [sse_frame hel_payload, sse_frame lo_payload, sse_frame ''[DONE]'']) \<and>
   last (sse_frame hel_payload) = newline \<and> last (sse_frame lo_payload) = newline \<and>
   carries_delta example_parse hel_payload ''Hel'' \<and> carries_delta example_parse lo_payload ''lo'' \<and>
   map_option messages (store (fst (post_chat hello_provider 1 2 world0 request_hi)) 1) =
     Some [userMessage ''hi'' 1,
           \<lparr>role = Assistant, content = ''Hello'', timestamp = 2,
            model = Some ''openai/gpt-3.5-turbo'', tokens = 42\<rparr>] \<and>
   stream_log (post_stream example_parse hello_stream 1 2 world0 request_hi) 1 =
     Some [userMessage ''hi'' 1,
           \<lparr>role = Assistant, content = ''Hello'', timestamp = 2,
            model = Some ''openai/gpt-3.5-turbo'', tokens = 2\<rparr>]"
proof -
  have x: "concat [''Hel'', ''lo''] \<noteq> []"
    by simp
  have pc: "hello_provider (or_string (body_model request_hi) (chat_model chat0))
             (apiMessages (push chat0 (userMessage (body_message request_hi) 1))) =
            Completed (concat [''Hel'', ''lo'']) (Some 42)"
    by (simp add: hello_provider_def)
  have pc': "hello_provider ''openai/gpt-3.5-turbo'' (apiMessages (push chat0 (userMessage ''hi'' 1))) =
     Completed ''Hello'' (Some 42)"
    by (simp add: hello_provider_def)
  have p: "hello_stream (or_string (body_model request_hi) (chat_model chat0))
             (apiMessages (push chat0 (userMessage (body_message request_hi) 1))) =
           Some (map Data ([sse_frame hel_payload, sse_frame lo_payload] @ [[] @ sse_frame ''[DONE]'']))"
    by (simp add: hello_stream_def whole_chunks_def)
  have p': "hello_stream ''openai/gpt-3.5-turbo'' (apiMessages (push chat0 (userMessage ''hi'' 1))) =
     Some (map Data [sse_frame hel_payload, sse_frame lo_payload, sse_frame ''[DONE]''])"
    by (simp add: hello_stream_def whole_chunks_def)
  have cut: "concat [sse_frame hel_payload, sse_frame lo_payload] @ [] =
               concat (map sse_frame [hel_payload, lo_payload])"
    by simp
  have nl: "\<forall>x\<in>set [sse_frame hel_payload, sse_frame lo_payload]. x \<noteq> [] \<and> last x = newline"
    by (simp add: frame_ends_with_newline)
  have ps: "\<forall>p\<in>set [hel_payload, lo_payload]. newline \<notin> set p \<and> p \<noteq> ''[DONE]''"
    by (simp add: example_payload_lines)
  have c: "carries_delta example_parse hel_payload ''Hel''" "carries_delta example_parse lo_payload ''lo''"
    by (simp_all add: carries_delta_def example_parse_payloads delta_content_delta_json)
  then have ds: "list_all2 (carries_delta example_parse) [hel_payload, lo_payload] [''Hel'', ''lo'']"
    by simp
  note t = assistant_message_of_both_paths
      [where parse = example_parse and provc = hello_provider and provs = hello_stream
         and ?t1.0 = 1 and ?t2.0 = 2 and ds = "[''Hel'', ''lo'']",
       OF example_request x pc p cut nl ps ds]
  have f: "findOne (store world0) 1 7 = Some chat0"
    using example_request(2) by (simp add: example_values)
  have tk: "or_zero (Some 42) = 42" "ceil4 (length (concat [''Hel'', ''lo''])) = 2"
    "concat [''Hel'', ''lo''] = ''Hello''"
    by (simp_all add: ceil4_def or_zero_def)
  from t [unfolded tk(1,2), unfolded tk(3) example_values append_Nil] f example_request(1,3) c pc' p'
  show ?thesis
    by (simp add: frame_ends_with_newline)
qed

section \<open>A client that disconnects\<close>

text \<open>
  C9, as the claim states it, fails: the client disconnects after the first delta,
  the upstream goes on, and at \<open>[DONE]\<close> the assistant message \<open>Hello\<close> is stored.
\<close>

theorem disconnect_still_persists:
  "map_option (map (\<lambda>m. (role m, content m)))
     (stream_log (post_stream example_parse disconnect_stream 1 2 world0 request_hi) 1) =
     Some [(User, ''hi''), (Assistant, ''Hello'')]"
  by code_simp

text \<open>
  C9, amended. The handler registers no callback for the close of the client's
  connection, so the upstream is read to its end. \<open>POST /stream\<close> with a valid
  request on an active conversation of the caller, when the client disconnects at any
  point of the session, the upstream delivers the frames \<open>ps\<close> with the deltas \<open>ds\<close>,
  each a string and not empty, and then the \<open>[DONE]\<close> frame, the text assembled is not
  empty, and no frame is cut by a read (every chunk before the last is not empty and
  ends with a newline, and the last ends with the whole \<open>[DONE]\<close> frame): at the
  sentinel the store holds the user message and the assistant message whose content
  is the deltas concatenated, and the handler has written every partial event and the
  final event to the response, as it does for a client that stays.
\<close>

theorem disconnect_before_sentinel:
  assumes "errors req = []"
    and "findOne (store w) (chatId req) (userId req) = Some c"
    and "chat_valid c"
    and "body_message req \<noteq> []"
    and "prov (or_string (body_model req) (chat_model c))
           (apiMessages (push c (userMessage (body_message req) t1))) =
         Some (evs1 @ ClientDisconnect # evs2)"
    and "evs1 @ evs2 = map Data (cs @ [ch @ sse_frame ''[DONE]''])"
    and "concat cs @ ch = concat (map sse_frame ps)"
    and "\<forall>x\<in>set cs. x \<noteq> [] \<and> last x = newline"
    and "\<forall>p\<in>set ps. newline \<notin> set p \<and> p \<noteq> ''[DONE]''"
    and "list_all2 (carries_delta parse) ps ds"
    and "concat ds \<noteq> []"
  shows "post_stream parse prov t1 t2 w req =
           Inr (w\<lparr>store := (store w)(chatId req \<mapsto>
                   c\<lparr>messages := messages c @
                        [userMessage (body_message req) t1,
                         \<lparr>role = Assistant, content = concat ds, timestamp = t2,
                          model = Some (or_string (body_model req) (chat_model c)),
                          tokens = ceil4 (length (concat ds))\<rparr>],
                      totalTokens := total_tokens (messages c @
                        [userMessage (body_message req) t1,
                         \<lparr>role = Assistant, content = concat ds, timestamp = t2,
                          model = Some (or_string (body_model req) (chat_model c)),
                          tokens = ceil4 (length (concat ds))\<rparr>]),
                      lastActivity := t2\<rparr>)\<rparr>,
                \<lparr>head = Some (200, sse_headers),
                 written = map (\<lambda>d. Partial (JStr d)) ds @
                   [Done \<lparr>role = Assistant, content = concat ds, timestamp = t2,
                          model = Some (or_string (body_model req) (chat_model c)),
                          tokens = ceil4 (length (concat ds))\<rparr>],
                 ended = True\<rparr>)"
proof -
  have ev: "evs1 @ ClientDisconnect # evs2 = map Data (cs @ [ch @ sse_frame ''[DONE]'']) \<or>
         (\<exists>e1 e2. evs1 @ ClientDisconnect # evs2 = e1 @ ClientDisconnect # e2 \<and>
            e1 @ e2 = map Data (cs @ [ch @ sse_frame ''[DONE]'']))"
    using assms(6) by blast
  show ?thesis
    by (rule post_stream_deltas
          [where prov = prov and parse = parse and ps = ps and ds = ds,
           OF assms(1-5) ev assms(9) assms(7) assms(8) assms(10) assms(11)])
qed

theorem disconnect_before_sentinel_witness:
  "errors request_hi = [] \<and> findOne (store world0) 1 7 = Some chat0 \<and> chat_valid chat0 \<and>
   disconnect_stream ''openai/gpt-3.5-turbo'' (apiMessages (push chat0 (userMessage ''hi'' 1))) =
     Some [Data (sse_frame hel_payload), ClientDisconnect, Data (sse_frame lo_payload),
           Data (sse_frame ''[DONE]'')] \<and>
   last (sse_frame hel_payload) = newline \<and> last (sse_frame lo_payload) = newline \<and>
   carries_delta example_parse hel_payload ''Hel'' \<and> carries_delta example_parse lo_payload ''lo'' \<and>
   post_stream example_parse disconnect_stream 1 2 world0 request_hi =
     Inr (world0\<lparr>store := (store world0)(1 \<mapsto>
             chat0\<lparr>messages :=
                      [userMessage ''hi'' 1,
                       \<lparr>role = Assistant, content = ''Hello'', timestamp = 2,
                        model = Some ''openai/gpt-3.5-turbo'', tokens = 2\<rparr>],
                    totalTokens := 3, lastActivity := 2\<rparr>)\<rparr>,
          \<lparr>head = Some (200, sse_headers),
           written = [Partial (JStr ''Hel''), Partial (JStr ''lo''),
                      Done \<lparr>role = Assistant, content = ''Hello'', timestamp = 2,
                            model = Some ''openai/gpt-3.5-turbo'', tokens = 2\<rparr>],
           ended = True\<rparr>)"
proof -
  have p: "disconnect_stream (or_string (body_model request_hi) (chat_model chat0))
             (apiMessages (push chat0 (userMessage (body_message request_hi) 1))) =
           Some ([Data (sse_frame hel_payload)] @ ClientDisconnect #
                 [Data (sse_frame lo_payload), Data (sse_frame ''[DONE]'')])"
    by (simp add: disconnect_stream_def)
  have p': "disconnect_stream ''openai/gpt-3.5-turbo'' (apiMessages (push chat0 (userMessage ''hi'' 1))) =
     Some [Data (sse_frame hel_payload), ClientDisconnect, Data (sse_frame lo_payload),
           Data (sse_frame ''[DONE]'')]"
    by (simp add: disconnect_stream_def)
  have e: "[Data (sse_frame hel_payload)] @ [Data (sse_frame lo_payload), Data (sse_frame ''[DONE]'')] =
             map Data ([sse_frame hel_payload, sse_frame lo_payload] @ [[] @ sse_frame ''[DONE]''])"
    by simp
  have cut: "concat [sse_frame hel_payload, sse_frame lo_payload] @ [] =
               concat (map sse_frame [hel_payload, lo_payload])"
    by simp
  have nl: "\<forall>x\<in>set [sse_frame hel_payload, sse_frame lo_payload]. x \<noteq> [] \<and> last x = newline"
    by (simp add: frame_ends_with_newline)
  have ps: "\<forall>p\<in>set [hel_payload, lo_payload]. newline \<notin> set p \<and> p \<noteq> ''[DONE]''"
    by (simp add: example_payload_lines)
  have c: "carries_delta example_parse hel_payload ''Hel''" "carries_delta example_parse lo_payload ''lo''"
    by (simp_all add: carries_delta_def example_parse_payloads delta_content_delta_json)
  then have ds: "list_all2 (carries_delta example_parse) [hel_payload, lo_payload] [''Hel'', ''lo'']"
    by simp
  have x: "concat [''Hel'', ''lo''] \<noteq> []"
    by simp
  note t = disconnect_before_sentinel
      [where parse = example_parse and prov = disconnect_stream and ?t1.0 = 1 and ?t2.0 = 2
         and ds = "[''Hel'', ''lo'']",
       OF example_request p e cut nl ps ds x]
  have f: "findOne (store world0) 1 7 = Some chat0"
    using example_request(2) by (simp add: example_values)
  have tk: "ceil4 (length (concat [''Hel'', ''lo''])) = 2" "concat [''Hel'', ''lo''] = ''Hello''"
    "total_tokens ([] @ [userMessage ''hi'' 1,
                       \<lparr>role = Assistant, content = ''Hello'', timestamp = 2,
                        model = Some ''openai/gpt-3.5-turbo'', tokens = 2\<rparr>]) = 3"
    by (simp add: ceil4_def, simp, code_simp)
  from t [unfolded tk(1), unfolded tk(2) example_values, unfolded tk(3), unfolded append_Nil] f
    example_request(1,3) c p'
  show ?thesis
    by (simp add: frame_ends_with_newline)
qed

section \<open>A missing conversation on the streaming endpoint\<close>

text \<open>
  C10. On \<open>POST /stream\<close> with a valid request, when the conversation does not
  exist, is owned by someone else or is soft-deleted, the response already has status
  200 and the event-stream headers; it carries the single event
  \<open>{ error: 'Chat not found' }\<close> and is ended, and the world (every conversation, every
  emitted event) is as before.
\<close>

theorem post_stream_not_found:
  assumes "errors req = []"
    and "(case store w (chatId req) of
            None \<Rightarrow> True
          | Some c \<Rightarrow> user c \<noteq> userId req \<or> \<not> isActive c)"
  shows "post_stream parse prov t1 t2 w req =
           Inr (w, \<lparr>head = Some (200, sse_headers), written = [ErrorEvent ''Chat not found''],
                    ended = True\<rparr>)"
proof -
  have "findOne (store w) (chatId req) (userId req) = None"
    using assms(2) by (auto simp: findOne_def split: option.splits)
  with assms(1) show ?thesis
    by (simp add: post_stream_def stream_open_def writeHead_def res_write_def res_end_def)
qed

theorem post_stream_not_found_witness:
  "errors request_missing = [] \<and> store world0 (chatId request_missing) = None \<and>
   post_stream (\<lambda>data. None) silent_provider 1 2 world0 request_missing =
     Inr (world0, \<lparr>head = Some (200, sse_headers), written = [ErrorEvent ''Chat not found''],
                    ended = True\<rparr>)"
proof -
  have e: "errors request_missing = []"
    by (simp add: request_missing_def)
  have n: "store world0 (chatId request_missing) = None"
    by (simp add: request_missing_def world0_def)
  have "(case store world0 (chatId request_missing) of
           None \<Rightarrow> True
         | Some c \<Rightarrow> user c \<noteq> userId request_missing \<or> \<not> isActive c)"
    by (simp add: n)
  from post_stream_not_found [OF e this] e n show ?thesis
    by simp
qed

end
